theory Spec2Isabelle
  imports Complex_Main "HOL-Library.Log_Nat" "HOL-Library.Char_ord" "HOL-Library.List_Lexorder"
    "HOL-Library.Multiset"
begin

section \<open>Errors\<close>

text \<open>
  The exceptions the engine can raise: \<^verbatim>\<open>ValueError\<close> (raised by the engine's own argument
  checks), \<^verbatim>\<open>sqlite3.IntegrityError\<close> (raised by the store when a row violates a
  \<^verbatim>\<open>CHECK\<close> or \<^verbatim>\<open>UNIQUE\<close> constraint of the schema) and \<^verbatim>\<open>IndexError\<close> (the
  \<^verbatim>\<open>[0]\<close> of the older variant on an empty query result). The specification's
  \<^verbatim>\<open>InvalidArgument\<close> is the engine's \<^verbatim>\<open>ValueError\<close>.
\<close>

datatype violation = CHECK_failed | UNIQUE_failed

datatype error = ValueError string | IntegrityError violation | IndexError

section \<open>Binary64 arithmetic\<close>

text \<open>
  A Python \<^verbatim>\<open>float\<close> is an IEEE 754 binary64 number. A finite one is modelled by the
  rational it denotes; every arithmetic operation of the source is the exact operation
  followed by rounding to the nearest number with a 53-bit significand, ties to even
  (\<open>fl\<close>; below \<open>2 ^ -1022\<close> the spacing stays \<open>2 ^ -1074\<close>). Infinities, NaN and the
  sign of zero are not modelled.
\<close>

type_synonym float64 = rat

definition round_half_even :: "rat \<Rightarrow> int" where
  "round_half_even x =
     (let f = \<lfloor>x\<rfloor>; d = x - of_int f
      in if d < 1 / 2 then f else if 1 / 2 < d then f + 1
         else if even f then f else f + 1)"

definition pow2 :: "int \<Rightarrow> rat" where
  "pow2 e = (if 0 \<le> e then 2 ^ nat e else 1 / 2 ^ nat (- e))"

text \<open>\<open>ilog2 x\<close> is the binary exponent of a positive \<open>x\<close>: \<open>2 ^ ilog2 x \<le> x < 2 ^ (ilog2 x + 1)\<close>.\<close>

definition ilog2 :: "rat \<Rightarrow> int" where
  "ilog2 x =
     (let (p, q) = quotient_of x; k = bitlen p - bitlen q
      in if pow2 k \<le> x then k else k - 1)"

definition fl :: "rat \<Rightarrow> float64" where
  "fl x =
     (if x = 0 then 0
      else let u = pow2 (max (ilog2 \<bar>x\<bar>) (- 1022) - 52)
           in of_int (round_half_even (x / u)) * u)"

definition fadd :: "float64 \<Rightarrow> float64 \<Rightarrow> float64" where
  "fadd a b = fl (a + b)"

definition fsub :: "float64 \<Rightarrow> float64 \<Rightarrow> float64" where
  "fsub a b = fl (a - b)"

definition fmul :: "float64 \<Rightarrow> float64 \<Rightarrow> float64" where
  "fmul a b = fl (a * b)"

definition fdiv :: "float64 \<Rightarrow> float64 \<Rightarrow> float64" where
  "fdiv a b = fl (a / b)"

text \<open>
  \<^verbatim>\<open>round(x, 2)\<close>: the exact value of \<open>x\<close> is rounded to two decimals, ties to even,
  and the decimal result is read back as the nearest binary64 number.
\<close>

definition round2 :: "float64 \<Rightarrow> float64" where
  "round2 x = fl (of_int (round_half_even (x * 100)) / 100)"

section \<open>Dates\<close>

text \<open>
  A \<^verbatim>\<open>datetime.date\<close>. The store keeps dates as the text of \<^verbatim>\<open>isoformat()\<close>
  (\<^verbatim>\<open>YYYY-MM-DD\<close>) and compares them as text, byte by byte.
\<close>

record date =
  year :: nat
  month :: nat
  day :: nat

definition is_leap :: "nat \<Rightarrow> bool" where
  "is_leap y = (y mod 4 = 0 \<and> (y mod 100 \<noteq> 0 \<or> y mod 400 = 0))"

definition days_in_month :: "nat \<Rightarrow> nat \<Rightarrow> nat" where
  "days_in_month y m =
     (if m = 2 then (if is_leap y then 29 else 28)
      else if m \<in> {4, 6, 9, 11} then 30 else 31)"

definition valid_date :: "date \<Rightarrow> bool" where
  "valid_date d =
     (1 \<le> year d \<and> year d \<le> 9999 \<and> 1 \<le> month d \<and> month d \<le> 12 \<and>
      1 \<le> day d \<and> day d \<le> days_in_month (year d) (month d))"

definition date_le :: "date \<Rightarrow> date \<Rightarrow> bool" where
  "date_le a b =
     (year a < year b \<or> year a = year b \<and>
        (month a < month b \<or> month a = month b \<and> day a \<le> day b))"

definition digit :: "nat \<Rightarrow> char" where
  "digit n = char_of (48 + n mod 10)"

definition isoformat :: "date \<Rightarrow> string" where
  "isoformat d =
     [digit (year d div 1000), digit (year d div 100), digit (year d div 10), digit (year d),
      CHR ''-'', digit (month d div 10), digit (month d),
      CHR ''-'', digit (day d div 10), digit (day d)]"

text \<open>\<^verbatim>\<open>date.toordinal()\<close> and \<^verbatim>\<open>date.weekday()\<close> (Monday is 0).\<close>

definition days_before_year :: "nat \<Rightarrow> nat" where
  "days_before_year y = (y - 1) * 365 + (y - 1) div 4 - (y - 1) div 100 + (y - 1) div 400"

fun days_before_month :: "nat \<Rightarrow> nat \<Rightarrow> nat" where
  "days_before_month y 0 = 0"
| "days_before_month y (Suc 0) = 0"
| "days_before_month y (Suc (Suc m)) = days_before_month y (Suc m) + days_in_month y (Suc m)"

definition toordinal :: "date \<Rightarrow> nat" where
  "toordinal d = days_before_year (year d) + days_before_month (year d) (month d) + day d"

definition weekday :: "date \<Rightarrow> nat" where
  "weekday d = (toordinal d + 6) mod 7"

definition prev_day :: "date \<Rightarrow> date" where
  "prev_day d =
     (if 1 < day d then d\<lparr>day := day d - 1\<rparr>
      else if 1 < month d
        then d\<lparr>month := month d - 1, day := days_in_month (year d) (month d - 1)\<rparr>
      else \<lparr>year = year d - 1, month = 12, day = 31\<rparr>)"

text \<open>
  \<^verbatim>\<open>date.fromisocalendar(today.isocalendar()[0], today.isocalendar()[1], 1)\<close>: the Monday
  of the ISO week that contains \<open>today\<close>, which is \<open>weekday today\<close> days before it.
\<close>

definition iso_week_monday :: "date \<Rightarrow> date" where
  "iso_week_monday today = (prev_day ^^ weekday today) today"

section \<open>The store\<close>

text \<open>
  The tables of \<^verbatim>\<open>DB.init_schema\<close>, each a list of rows in insertion order. Text columns
  are strings, \<^verbatim>\<open>REAL\<close> columns binary64 numbers, \<^verbatim>\<open>is_upcoming\<close> the stored integer.
\<close>

record account =
  a_id :: int
  a_name :: string
  a_currency :: string
  a_balance :: float64
  a_type :: string
  a_created_at :: string

record category =
  c_id :: int
  c_name :: string
  c_kind :: string
  c_is_default :: int

record expense =
  e_id :: int
  e_name :: string
  e_amount :: float64
  e_currency :: string
  e_account_id :: int
  e_category_id :: "int option"
  e_is_upcoming :: int
  e_date :: string
  e_created_at :: string

record income =
  i_id :: int
  i_source :: string
  i_description :: string
  i_amount :: float64
  i_currency :: string
  i_is_upcoming :: int
  i_expected_date :: string
  i_created_at :: string

record database =
  accounts :: "account list"
  categories :: "category list"
  expenses :: "expense list"
  incomes :: "income list"
  settings :: "string \<rightharpoonup> string"

definition SUPPORTED_CURRENCIES :: "string list" where
  "SUPPORTED_CURRENCIES = [''BDT'', ''USD'']"

definition ACCOUNT_TYPES :: "string list" where
  "ACCOUNT_TYPES = [''fixed'', ''liquid'']"

text \<open>\<^verbatim>\<open>INTEGER PRIMARY KEY AUTOINCREMENT\<close>: one more than the largest id in the table.\<close>

definition next_id :: "int list \<Rightarrow> int" where
  "next_id ids = foldr max ids 0 + 1"

text \<open>
  \<^verbatim>\<open>INSERT INTO accounts\<close> under the schema of \<^verbatim>\<open>main.py\<close>: the \<^verbatim>\<open>CHECK\<close> constraints
  on \<^verbatim>\<open>currency\<close> and \<^verbatim>\<open>type\<close> and the \<^verbatim>\<open>UNIQUE\<close> constraint on \<^verbatim>\<open>name\<close>. The
  result is \<^verbatim>\<open>lastrowid\<close> and the new store.
\<close>

definition insert_account ::
  "string \<Rightarrow> string \<Rightarrow> float64 \<Rightarrow> string \<Rightarrow> string \<Rightarrow> database \<Rightarrow> error + int \<times> database" where
  "insert_account name currency balance acc_type created_at d =
     (if currency \<notin> {''BDT'', ''USD''}
        then Inl (IntegrityError CHECK_failed)
      else if acc_type \<notin> {''fixed'', ''liquid''}
        then Inl (IntegrityError CHECK_failed)
      else if name \<in> set (map a_name (accounts d))
        then Inl (IntegrityError UNIQUE_failed)
      else let i = next_id (map a_id (accounts d))
           in Inr (i, d\<lparr>accounts := accounts d @
                 [\<lparr>a_id = i, a_name = name, a_currency = currency, a_balance = balance,
                   a_type = acc_type, a_created_at = created_at\<rparr>]\<rparr>))"

text \<open>
  The schema of \<^verbatim>\<open>main_v1.py\<close> puts no constraint on \<^verbatim>\<open>accounts\<close> or \<^verbatim>\<open>expenses\<close>.
\<close>

definition insert_account_v1 ::
  "string \<Rightarrow> string \<Rightarrow> float64 \<Rightarrow> string \<Rightarrow> string \<Rightarrow> database \<Rightarrow> int \<times> database" where
  "insert_account_v1 name currency balance atype created_at d =
     (let i = next_id (map a_id (accounts d))
      in (i, d\<lparr>accounts := accounts d @
            [\<lparr>a_id = i, a_name = name, a_currency = currency, a_balance = balance,
              a_type = atype, a_created_at = created_at\<rparr>]\<rparr>))"

definition new_expense ::
  "string \<Rightarrow> float64 \<Rightarrow> string \<Rightarrow> int \<Rightarrow> int option \<Rightarrow> int \<Rightarrow> string \<Rightarrow> string \<Rightarrow> database
     \<Rightarrow> expense" where
  "new_expense name amount currency account_id category_id is_upcoming dt created_at d =
     \<lparr>e_id = next_id (map e_id (expenses d)), e_name = name, e_amount = amount,
      e_currency = currency, e_account_id = account_id, e_category_id = category_id,
      e_is_upcoming = is_upcoming, e_date = dt, e_created_at = created_at\<rparr>"

text \<open>
  \<^verbatim>\<open>INSERT INTO expenses\<close> under the schema of \<^verbatim>\<open>main.py\<close>: \<^verbatim>\<open>currency\<close> has a
  \<^verbatim>\<open>CHECK\<close> constraint. The foreign keys are declared but the connection never turns
  \<^verbatim>\<open>PRAGMA foreign_keys\<close> on, so they are not enforced.
\<close>

definition insert_expense ::
  "string \<Rightarrow> float64 \<Rightarrow> string \<Rightarrow> int \<Rightarrow> int option \<Rightarrow> int \<Rightarrow> string \<Rightarrow> string \<Rightarrow> database
     \<Rightarrow> error + database" where
  "insert_expense name amount currency account_id category_id is_upcoming dt created_at d =
     (if currency \<notin> {''BDT'', ''USD''}
        then Inl (IntegrityError CHECK_failed)
      else Inr (d\<lparr>expenses := expenses d @
             [new_expense name amount currency account_id category_id is_upcoming dt
                created_at d]\<rparr>))"

definition insert_expense_v1 ::
  "string \<Rightarrow> float64 \<Rightarrow> string \<Rightarrow> int \<Rightarrow> int option \<Rightarrow> int \<Rightarrow> string \<Rightarrow> string \<Rightarrow> database
     \<Rightarrow> database" where
  "insert_expense_v1 name amount currency account_id category_id is_upcoming dt created_at d =
     d\<lparr>expenses := expenses d @
        [new_expense name amount currency account_id category_id is_upcoming dt created_at d]\<rparr>"

definition new_income ::
  "string \<Rightarrow> string \<Rightarrow> float64 \<Rightarrow> string \<Rightarrow> int \<Rightarrow> string \<Rightarrow> string \<Rightarrow> database \<Rightarrow> income" where
  "new_income source description amount currency is_upcoming expected created_at d =
     \<lparr>i_id = next_id (map i_id (incomes d)), i_source = source,
      i_description = description, i_amount = amount, i_currency = currency,
      i_is_upcoming = is_upcoming, i_expected_date = expected, i_created_at = created_at\<rparr>"

definition insert_income ::
  "string \<Rightarrow> string \<Rightarrow> float64 \<Rightarrow> string \<Rightarrow> int \<Rightarrow> string \<Rightarrow> string \<Rightarrow> database
     \<Rightarrow> error + database" where
  "insert_income source description amount currency is_upcoming expected created_at d =
     (if currency \<notin> {''BDT'', ''USD''}
        then Inl (IntegrityError CHECK_failed)
      else Inr (d\<lparr>incomes := incomes d @
             [new_income source description amount currency is_upcoming expected created_at d]\<rparr>))"

section \<open>The engine's state and its environment\<close>

text \<open>
  The state is the store and the rate cache of the currency service. The exchange-rate
  endpoint is an oracle: \<open>net n base target\<close> is the answer to the \<open>n\<close>-th request of the
  process, \<open>Some rate\<close> when the request succeeds with status 200 and a well-formed body,
  \<open>None\<close> on a timeout, another status or a malformed body. \<open>sent\<close> counts the requests.
\<close>

record world =
  db :: database
  cache :: "string \<times> string \<rightharpoonup> float64"
  sent :: nat

type_synonym network = "nat \<Rightarrow> string \<Rightarrow> string \<Rightarrow> float64 option"

section \<open>Currency service\<close>

definition fallback_rate :: "((string \<times> string) \<times> float64) list" where
  "fallback_rate = [((''USD'', ''BDT''), 120), ((''BDT'', ''USD''), fdiv 1 120)]"

definition get_display_currency :: "world \<Rightarrow> string" where
  "get_display_currency w =
     (case settings (db w) ''display_currency'' of Some v \<Rightarrow> v | None \<Rightarrow> ''BDT'')"

definition fetch_rate :: "network \<Rightarrow> string \<Rightarrow> string \<Rightarrow> world \<Rightarrow> float64 \<times> world" where
  "fetch_rate net base target w =
     (if base = target then (1, w)
      else case cache w (base, target) of
        Some r \<Rightarrow> (r, w)
      | None \<Rightarrow>
          (case net (sent w) base target of
             Some rate \<Rightarrow>
               (rate, w\<lparr>cache := (cache w)((base, target) \<mapsto> rate), sent := sent w + 1\<rparr>)
           | None \<Rightarrow>
               (case map_of fallback_rate (base, target) of Some r \<Rightarrow> r | None \<Rightarrow> 1,
                w\<lparr>sent := sent w + 1\<rparr>)))"

definition convert :: "network \<Rightarrow> float64 \<Rightarrow> string \<Rightarrow> string \<Rightarrow> world \<Rightarrow> float64 \<times> world" where
  "convert net amount base target w =
     (let (r, w') = fetch_rate net base target w in (fmul amount r, w'))"

text \<open>The currency service of \<^verbatim>\<open>main_v1.py\<close>: one fallback for every pair but USD to BDT.\<close>

definition fetch_rate_v1 :: "network \<Rightarrow> string \<Rightarrow> string \<Rightarrow> world \<Rightarrow> float64 \<times> world" where
  "fetch_rate_v1 net base target w =
     (if base = target then (1, w)
      else case cache w (base, target) of
        Some r \<Rightarrow> (r, w)
      | None \<Rightarrow>
          (case net (sent w) base target of
             Some rate \<Rightarrow>
               (rate, w\<lparr>cache := (cache w)((base, target) \<mapsto> rate), sent := sent w + 1\<rparr>)
           | None \<Rightarrow>
               (if (base, target) = (''USD'', ''BDT'') then 120 else fdiv 1 120,
                w\<lparr>sent := sent w + 1\<rparr>)))"

definition convert_v1 :: "network \<Rightarrow> float64 \<Rightarrow> string \<Rightarrow> string \<Rightarrow> world \<Rightarrow> float64 \<times> world" where
  "convert_v1 net amt base target w =
     (let (r, w') = fetch_rate_v1 net base target w in (fmul amt r, w'))"

section \<open>Finance service\<close>

text \<open>
  \<^verbatim>\<open>SELECT * FROM accounts ORDER BY created_at DESC\<close>: the rows sorted by the text of
  \<^verbatim>\<open>created_at\<close>, latest first; rows with the same text keep their insertion order.
\<close>

fun insert_desc :: "account \<Rightarrow> account list \<Rightarrow> account list" where
  "insert_desc a [] = [a]"
| "insert_desc a (b # bs) =
     (if a_created_at b \<le> a_created_at a then a # b # bs else b # insert_desc a bs)"

definition list_accounts :: "world \<Rightarrow> account list" where
  "list_accounts w = foldr insert_desc (accounts (db w)) []"

text \<open>\<^verbatim>\<open>UPDATE accounts SET balance=? WHERE id=?\<close>\<close>

definition update_balance :: "int \<Rightarrow> float64 \<Rightarrow> world \<Rightarrow> world" where
  "update_balance account_id new_balance w =
     w\<lparr>db := (db w)\<lparr>accounts :=
        map (\<lambda>a. if a_id a = account_id then a\<lparr>a_balance := new_balance\<rparr> else a)
          (accounts (db w))\<rparr>\<rparr>"

text \<open>
  The operations take the environment first: the network oracle, and the clock as the
  text of \<^verbatim>\<open>datetime.utcnow().isoformat()\<close> or the value of \<^verbatim>\<open>date.today()\<close>. Each
  returns the error or the result together with the state it leaves behind, which after an
  error is the state at the moment of the raise.
\<close>

definition add_account ::
  "string \<Rightarrow> string \<Rightarrow> string \<Rightarrow> float64 \<Rightarrow> string \<Rightarrow> world \<Rightarrow> (error + int) \<times> world" where
  "add_account now name currency balance acc_type w =
     (if currency \<notin> set SUPPORTED_CURRENCIES
        then (Inl (ValueError ''Unsupported currency''), w)
      else if acc_type \<notin> set ACCOUNT_TYPES
        then (Inl (ValueError ''Unsupported account type''), w)
      else case insert_account name currency balance acc_type now (db w) of
             Inl e \<Rightarrow> (Inl e, w)
           | Inr (i, d') \<Rightarrow> (Inr i, w\<lparr>db := d'\<rparr>))"

definition add_account_v1 ::
  "string \<Rightarrow> string \<Rightarrow> string \<Rightarrow> float64 \<Rightarrow> string \<Rightarrow> world \<Rightarrow> (error + int) \<times> world" where
  "add_account_v1 now name currency balance atype w =
     (let (i, d') = insert_account_v1 name currency balance atype now (db w)
      in (Inr i, w\<lparr>db := d'\<rparr>))"

definition add_expense ::
  "network \<Rightarrow> string \<Rightarrow> string \<Rightarrow> float64 \<Rightarrow> string \<Rightarrow> int \<Rightarrow> int option \<Rightarrow> bool \<Rightarrow> date \<Rightarrow> world
     \<Rightarrow> (error + unit) \<times> world" where
  "add_expense net now name amount currency account_id category_id is_upcoming when w =
     (case insert_expense name amount currency account_id category_id
             (if is_upcoming then 1 else 0) (isoformat when) now (db w) of
        Inl e \<Rightarrow> (Inl e, w)
      | Inr d1 \<Rightarrow>
          (let w1 = w\<lparr>db := d1\<rparr>
           in if \<not> is_upcoming then
                (case filter (\<lambda>a. a_id a = account_id) (accounts (db w1)) of
                   [] \<Rightarrow> (Inr (), w1)
                 | acc0 # rest \<Rightarrow>
                     (let acc_cur = a_currency acc0;
                          (debit, w2) =
                            (if currency \<noteq> acc_cur then convert net amount currency acc_cur w1
                             else (amount, w1))
                      in (Inr (), update_balance account_id (fsub (a_balance acc0) debit) w2)))
              else (Inr (), w1)))"

definition add_expense_v1 ::
  "network \<Rightarrow> string \<Rightarrow> string \<Rightarrow> float64 \<Rightarrow> string \<Rightarrow> int \<Rightarrow> int option \<Rightarrow> bool \<Rightarrow> date \<Rightarrow> world
     \<Rightarrow> (error + unit) \<times> world" where
  "add_expense_v1 net now name amt currency acc_id cat_id is_upcoming when w =
     (let w1 = w\<lparr>db := insert_expense_v1 name amt currency acc_id cat_id
                   (if is_upcoming then 1 else 0) (isoformat when) now (db w)\<rparr>
      in if \<not> is_upcoming then
           (case filter (\<lambda>a. a_id a = acc_id) (accounts (db w1)) of
              [] \<Rightarrow> (Inl IndexError, w1)
            | acc # rest \<Rightarrow>
                (let (debit, w2) =
                       (if currency \<noteq> a_currency acc
                          then convert_v1 net amt currency (a_currency acc) w1
                        else (amt, w1))
                 in (Inr (), update_balance acc_id (fsub (a_balance acc) debit) w2)))
         else (Inr (), w1))"

text \<open>The \<^verbatim>\<open>for\<close> loop of \<^verbatim>\<open>add_income\<close>: the first liquid account in the currency.\<close>

fun first_liquid :: "string \<Rightarrow> account list \<Rightarrow> account option" where
  "first_liquid currency [] = None"
| "first_liquid currency (a # as) =
     (if a_type a = ''liquid'' \<and> a_currency a = currency then Some a
      else first_liquid currency as)"

definition select_target :: "string \<Rightarrow> account list \<Rightarrow> account option" where
  "select_target currency accs =
     (case first_liquid currency accs of
        Some a \<Rightarrow> Some a
      | None \<Rightarrow> (case accs of [] \<Rightarrow> None | a # as \<Rightarrow> Some a))"

definition add_income ::
  "network \<Rightarrow> string \<Rightarrow> string \<Rightarrow> string \<Rightarrow> float64 \<Rightarrow> string \<Rightarrow> bool \<Rightarrow> date \<Rightarrow> world
     \<Rightarrow> (error + unit) \<times> world" where
  "add_income net now source description amount currency is_upcoming expected_date w =
     (case insert_income source description amount currency
             (if is_upcoming then 1 else 0) (isoformat expected_date) now (db w) of
        Inl e \<Rightarrow> (Inl e, w)
      | Inr d1 \<Rightarrow>
          (let w1 = w\<lparr>db := d1\<rparr>
           in if \<not> is_upcoming then
                (case select_target currency (list_accounts w1) of
                   None \<Rightarrow> (Inr (), w1)
                 | Some target_acc \<Rightarrow>
                     (let acc_cur = a_currency target_acc;
                          (credit, w2) =
                            (if currency \<noteq> acc_cur then convert net amount currency acc_cur w1
                             else (amount, w1))
                      in (Inr (), update_balance (a_id target_acc)
                                    (fadd (a_balance target_acc) credit) w2)))
              else (Inr (), w1)))"

record totals_result =
  display_currency :: string
  total_fixed :: float64
  total_liquid :: float64
  total_all :: float64

fun totals_loop ::
  "network \<Rightarrow> string \<Rightarrow> account list \<Rightarrow> float64 \<Rightarrow> float64 \<Rightarrow> world
     \<Rightarrow> (float64 \<times> float64) \<times> world" where
  "totals_loop net display_cur [] tfix tliq w = ((tfix, tliq), w)"
| "totals_loop net display_cur (a # as) tfix tliq w =
     (let (amt, w') =
            (if a_currency a = display_cur then (a_balance a, w)
             else convert net (a_balance a) (a_currency a) display_cur w)
      in if a_type a = ''fixed'' then totals_loop net display_cur as (fadd tfix amt) tliq w'
         else totals_loop net display_cur as tfix (fadd tliq amt) w')"

definition totals :: "network \<Rightarrow> world \<Rightarrow> totals_result \<times> world" where
  "totals net w =
     (let display_cur = get_display_currency w;
          ((tfix, tliq), w') = totals_loop net display_cur (list_accounts w) 0 0 w
      in (\<lparr>display_currency = display_cur, total_fixed = round2 tfix, total_liquid = round2 tliq,
           total_all = round2 (fadd tfix tliq)\<rparr>, w'))"

text \<open>
  \<^verbatim>\<open>sum(self.fx.convert(r["amount"], r["currency"], display_cur) for r in rows)\<close>: the
  rows are converted in order and added from the left, starting at 0, each addition
  rounded (the summation of CPython up to 3.11; later versions carry a compensation term
  through the same loop).
\<close>

fun sum_converted ::
  "network \<Rightarrow> string \<Rightarrow> (float64 \<times> string) list \<Rightarrow> float64 \<Rightarrow> world \<Rightarrow> float64 \<times> world" where
  "sum_converted net display_cur [] s w = (s, w)"
| "sum_converted net display_cur ((amount, currency) # rows) s w =
     (let (c, w') = convert net amount currency display_cur w
      in sum_converted net display_cur rows (fadd s c) w')"

record upcoming_result =
  up_display_currency :: string
  upcoming_expenses :: float64
  upcoming_incomes :: float64
  projected_total :: float64

definition upcoming_expense_rows :: "world \<Rightarrow> (float64 \<times> string) list" where
  "upcoming_expense_rows w =
     map (\<lambda>e. (e_amount e, e_currency e)) (filter (\<lambda>e. e_is_upcoming e = 1) (expenses (db w)))"

definition upcoming_income_rows :: "world \<Rightarrow> (float64 \<times> string) list" where
  "upcoming_income_rows w =
     map (\<lambda>i. (i_amount i, i_currency i)) (filter (\<lambda>i. i_is_upcoming i = 1) (incomes (db w)))"

definition upcoming_totals :: "network \<Rightarrow> world \<Rightarrow> upcoming_result \<times> world" where
  "upcoming_totals net w =
     (let display_cur = get_display_currency w;
          (up_exp, w1) = sum_converted net display_cur (upcoming_expense_rows w) 0 w;
          (up_inc, w2) = sum_converted net display_cur (upcoming_income_rows w) 0 w1;
          (t, w3) = totals net w2
      in (\<lparr>up_display_currency = display_cur, upcoming_expenses = round2 up_exp,
           upcoming_incomes = round2 up_inc,
           projected_total = round2 (fadd (fsub (total_all t) up_exp) up_inc)\<rparr>, w3))"

record period_result =
  ps_display_currency :: string
  ps_period :: string
  ps_expenses :: float64
  ps_income :: float64
  ps_net :: float64

definition period_start :: "date \<Rightarrow> string \<Rightarrow> error + date" where
  "period_start today period =
     (if period = ''daily'' then Inr today
      else if period = ''weekly'' then Inr (iso_week_monday today)
      else if period = ''monthly'' then Inr \<lparr>year = year today, month = month today, day = 1\<rparr>
      else Inl (ValueError ''period must be daily/weekly/monthly''))"

text \<open>\<^verbatim>\<open>SELECT amount, currency FROM expenses WHERE date>=?\<close>, a comparison of text.\<close>

definition expenses_since :: "string \<Rightarrow> world \<Rightarrow> expense list" where
  "expenses_since start w = filter (\<lambda>e. start \<le> e_date e) (expenses (db w))"

definition incomes_since :: "string \<Rightarrow> world \<Rightarrow> income list" where
  "incomes_since start w = filter (\<lambda>i. start \<le> i_expected_date i) (incomes (db w))"

definition period_summary ::
  "network \<Rightarrow> date \<Rightarrow> string \<Rightarrow> world \<Rightarrow> (error + period_result) \<times> world" where
  "period_summary net today period w =
     (let display_cur = get_display_currency w
      in case period_start today period of
           Inl e \<Rightarrow> (Inl e, w)
         | Inr start \<Rightarrow>
             (let exp = map (\<lambda>e. (e_amount e, e_currency e))
                          (expenses_since (isoformat start) w);
                  inc = map (\<lambda>i. (i_amount i, i_currency i))
                          (incomes_since (isoformat start) w);
                  (total_exp, w1) = sum_converted net display_cur exp 0 w;
                  (total_inc, w2) = sum_converted net display_cur inc 0 w1
              in (Inr \<lparr>ps_display_currency = display_cur, ps_period = period,
                       ps_expenses = round2 total_exp, ps_income = round2 total_inc,
                       ps_net = round2 (fsub total_inc total_exp)\<rparr>, w2)))"

section \<open>The specification's wording\<close>

text \<open>
  The target of an income as the specification words it: the first liquid account whose
  currency is the income's, else the first account of the list, else none.
\<close>

definition spec_target :: "string \<Rightarrow> account list \<Rightarrow> account option" where
  "spec_target currency accs =
     (case find (\<lambda>a. a_type a = ''liquid'' \<and> a_currency a = currency) accs of
        Some a \<Rightarrow> Some a
      | None \<Rightarrow> (if accs = [] then None else Some (hd accs)))"

text \<open>The first day of the month of a date.\<close>

definition first_of_month :: "date \<Rightarrow> date" where
  "first_of_month d = \<lparr>year = year d, month = month d, day = 1\<rparr>"

text \<open>
  The sum of monetary rows in the display currency as the specification words it: every
  row is converted at the rate the currency service gives when its turn comes, and the
  converted amounts are added up in row order.
\<close>

definition spec_converted_sum ::
  "network \<Rightarrow> string \<Rightarrow> (float64 \<times> string) list \<Rightarrow> world \<Rightarrow> float64 \<times> world" where
  "spec_converted_sum net dc rows w =
     foldl (\<lambda>(s, v) (amount, currency).
              (fadd s (fmul amount (fst (fetch_rate net currency dc v))),
               snd (fetch_rate net currency dc v)))
       (0, w) rows"

text \<open>
  The totals as the specification words them: every account's balance is taken in the
  display currency (converted unless it already is in it) and added to the sum of its
  type; the total of all is the rounded sum of the two.
\<close>

definition spec_in_display :: "network \<Rightarrow> string \<Rightarrow> account \<Rightarrow> world \<Rightarrow> float64 \<times> world" where
  "spec_in_display net dc a v =
     (if a_currency a = dc then (a_balance a, v)
      else (fmul (a_balance a) (fst (fetch_rate net (a_currency a) dc v)),
            snd (fetch_rate net (a_currency a) dc v)))"

definition spec_sums_by_type ::
  "network \<Rightarrow> string \<Rightarrow> account list \<Rightarrow> world \<Rightarrow> (float64 \<times> float64) \<times> world" where
  "spec_sums_by_type net dc accs w =
     foldl (\<lambda>((fixed, liquid), v) a.
              (if a_type a = ''fixed'' then (fadd fixed (fst (spec_in_display net dc a v)), liquid)
               else (fixed, fadd liquid (fst (spec_in_display net dc a v))),
               snd (spec_in_display net dc a v)))
       ((0, 0), w) accs"

definition spec_total_all :: "network \<Rightarrow> string \<Rightarrow> account list \<Rightarrow> world \<Rightarrow> float64" where
  "spec_total_all net dc accs w =
     round2 (fadd (fst (fst (spec_sums_by_type net dc accs w)))
                  (snd (fst (spec_sums_by_type net dc accs w))))"

section \<open>Concrete states\<close>

text \<open>
  The store that \<^verbatim>\<open>DB.init_schema\<close> and \<^verbatim>\<open>DB.seed_defaults\<close> leave in a new file, a
  process that has sent no request yet, and a network that never answers.
\<close>

definition seed_categories :: "category list" where
  "seed_categories =
     [\<lparr>c_id = 1, c_name = ''Groceries'', c_kind = ''expense'', c_is_default = 1\<rparr>,
      \<lparr>c_id = 2, c_name = ''Rent'', c_kind = ''expense'', c_is_default = 1\<rparr>,
      \<lparr>c_id = 3, c_name = ''Utilities'', c_kind = ''expense'', c_is_default = 1\<rparr>,
      \<lparr>c_id = 4, c_name = ''Transport'', c_kind = ''expense'', c_is_default = 1\<rparr>,
      \<lparr>c_id = 5, c_name = ''Dining'', c_kind = ''expense'', c_is_default = 1\<rparr>,
      \<lparr>c_id = 6, c_name = ''Healthcare'', c_kind = ''expense'', c_is_default = 1\<rparr>,
      \<lparr>c_id = 7, c_name = ''Entertainment'', c_kind = ''expense'', c_is_default = 1\<rparr>,
      \<lparr>c_id = 8, c_name = ''Salary'', c_kind = ''income'', c_is_default = 1\<rparr>,
      \<lparr>c_id = 9, c_name = ''Freelance'', c_kind = ''income'', c_is_default = 1\<rparr>,
      \<lparr>c_id = 10, c_name = ''Investment'', c_kind = ''income'', c_is_default = 1\<rparr>]"

definition fresh_db :: database where
  "fresh_db =
     \<lparr>accounts = [], categories = seed_categories, expenses = [], incomes = [],
      settings = [''display_currency'' \<mapsto> ''BDT'']\<rparr>"

definition fresh_world :: world where
  "fresh_world = \<lparr>db = fresh_db, cache = Map.empty, sent = 0\<rparr>"

definition offline :: network where
  "offline = (\<lambda>n base target. None)"

text \<open>A store with a fixed USD account and a later liquid BDT account.\<close>

definition savings :: account where
  "savings =
     \<lparr>a_id = 1, a_name = ''Savings'', a_currency = ''USD'', a_balance = 50, a_type = ''fixed'',
      a_created_at = ''2024-01-01T09:00:00''\<rparr>"

definition cash :: account where
  "cash =
     \<lparr>a_id = 2, a_name = ''Cash'', a_currency = ''BDT'', a_balance = 1000, a_type = ''liquid'',
      a_created_at = ''2024-01-02T09:00:00''\<rparr>"

definition two_accounts :: world where
  "two_accounts = fresh_world\<lparr>db := fresh_db\<lparr>accounts := [savings, cash]\<rparr>\<rparr>"

text \<open>
  The same store in March 2024, with a settled expense from February, a settled one from
  March, an upcoming expense and an upcoming income.
\<close>

definition march_expenses :: "expense list" where
  "march_expenses =
     [\<lparr>e_id = 1, e_name = ''Rent'', e_amount = 40, e_currency = ''BDT'', e_account_id = 2,
       e_category_id = Some 2, e_is_upcoming = 0, e_date = ''2024-02-29'',
       e_created_at = ''2024-02-29T08:00:00''\<rparr>,
      \<lparr>e_id = 2, e_name = ''Tea'', e_amount = 25, e_currency = ''BDT'', e_account_id = 2,
       e_category_id = None, e_is_upcoming = 0, e_date = ''2024-03-01'',
       e_created_at = ''2024-03-01T08:00:00''\<rparr>,
      \<lparr>e_id = 3, e_name = ''Laptop'', e_amount = 10, e_currency = ''USD'', e_account_id = 2,
       e_category_id = None, e_is_upcoming = 1, e_date = ''2024-03-20'',
       e_created_at = ''2024-03-02T08:00:00''\<rparr>]"

definition march_incomes :: "income list" where
  "march_incomes =
     [\<lparr>i_id = 1, i_source = ''Salary'', i_description = ''March'', i_amount = 500,
       i_currency = ''BDT'', i_is_upcoming = 1, i_expected_date = ''2024-03-25'',
       i_created_at = ''2024-03-02T09:00:00''\<rparr>]"

definition march_ledger :: world where
  "march_ledger =
     fresh_world\<lparr>db := fresh_db\<lparr>accounts := [savings, cash], expenses := march_expenses,
                                 incomes := march_incomes\<rparr>\<rparr>"

text \<open>The dates of the rows of \<open>march_expenses\<close>, by row id.\<close>

definition march_date :: "expense \<Rightarrow> date" where
  "march_date e =
     (if e_id e = 1 then \<lparr>year = 2024, month = 2, day = 29\<rparr>
      else if e_id e = 2 then \<lparr>year = 2024, month = 3, day = 1\<rparr>
      else \<lparr>year = 2024, month = 3, day = 20\<rparr>)"

text \<open>The same ledger with an eighth of a taka more on the liquid account.\<close>

definition cents_ledger :: world where
  "cents_ledger =
     march_ledger\<lparr>db := (db march_ledger)\<lparr>accounts := [savings, cash\<lparr>a_balance := 8001 / 8\<rparr>]\<rparr>\<rparr>"

section \<open>Rounding to binary64\<close>

lemma round_half_even_error: "\<bar>of_int (round_half_even x) - x\<bar> \<le> 1 / 2"
proof -
  define f where "f = \<lfloor>x\<rfloor>"
  define d where "d = x - of_int f"
  have d: "0 \<le> d" "d < 1" unfolding d_def f_def by linarith+
  have r: "round_half_even x =
      (if d < 1 / 2 then f else if 1 / 2 < d then f + 1 else if even f then f else f + 1)"
    by (simp add: round_half_even_def Let_def f_def d_def)
  have h0: "\<bar>of_int f - x\<bar> = d" and h1: "\<bar>of_int (f + 1) - x\<bar> = 1 - d"
    using d by (simp_all add: d_def)
  consider "d < 1 / 2" | "1 / 2 < d" | "d = 1 / 2" by linarith
  then show ?thesis
  proof cases
    case 1
    then have "round_half_even x = f" by (simp add: r)
    then show ?thesis using 1 h0 by linarith
  next
    case 2
    then have "round_half_even x = f + 1" by (simp add: r)
    then show ?thesis using 2 h1 by linarith
  next
    case 3
    then have "round_half_even x = f \<or> round_half_even x = f + 1" by (simp add: r)
    then show ?thesis
    proof
      assume "round_half_even x = f"
      then show ?thesis using 3 h0 by linarith
    next
      assume "round_half_even x = f + 1"
      then show ?thesis using 3 h1 by linarith
    qed
  qed
qed

lemma pow2_powi: "pow2 e = 2 powi e"
  by (simp add: pow2_def power_int_def inverse_eq_divide power_one_over)

lemma pow2_pos: "0 < pow2 e"
  by (simp add: pow2_powi)

lemma pow2_diff: "pow2 (a - b) = pow2 a / pow2 b"
  by (simp add: pow2_powi power_int_diff)

lemma pow2_nat: "pow2 (int n) = 2 ^ n"
  by (simp add: pow2_def)

lemma ilog2_lower:
  assumes "0 < x"
  shows "pow2 (ilog2 x) \<le> x"
proof -
  obtain p q where pq: "quotient_of x = (p, q)" by (cases "quotient_of x")
  have q: "0 < q" using quotient_of_denom_pos [OF pq] .
  have x: "x = of_int p / of_int q" using quotient_of_div [OF pq] .
  have p: "0 < p" using assms q x by (simp add: zero_less_divide_iff)
  let ?k = "bitlen p - bitlen q"
  show ?thesis
  proof (cases "pow2 ?k \<le> x")
    case True
    then show ?thesis by (simp add: ilog2_def pq)
  next
    case False
    have bp: "(2::int) ^ nat (bitlen p - 1) \<le> p" using bitlen_bounds [OF p] by simp
    have bq: "q < 2 ^ nat (bitlen q)" using bitlen_bounds [OF q] by simp
    have p1: "1 \<le> bitlen p" using p by (simp add: bitlen_alt_def)
    have q0: "0 \<le> bitlen q" by (rule bitlen_nonneg)
    have "pow2 (bitlen p - 1) \<le> of_int p"
    proof -
      have "of_int ((2::int) ^ nat (bitlen p - 1)) \<le> (of_int p :: rat)"
        using bp by (simp only: of_int_le_iff)
      then show ?thesis using p1 by (simp add: pow2_def)
    qed
    moreover have "of_int q \<le> pow2 (bitlen q)"
    proof -
      have "(of_int q :: rat) \<le> of_int (2 ^ nat (bitlen q))"
        using bq by (simp only: of_int_le_iff)
      then show ?thesis using q0 by (simp add: pow2_def)
    qed
    ultimately have "pow2 (bitlen p - 1) / pow2 (bitlen q) \<le> of_int p / of_int q"
      using q p pow2_pos [of "bitlen q"] pow2_pos [of "bitlen p - 1"]
      by (intro frac_le) simp_all
    then have "pow2 (?k - 1) \<le> x"
      using pow2_diff [of "bitlen p - 1" "bitlen q"] by (simp add: x algebra_simps)
    then show ?thesis using False by (simp add: ilog2_def pq)
  qed
qed

text \<open>Rounding moves a number by at most half a unit in the last place.\<close>

lemma fl_error:
  "\<bar>fl x - x\<bar> \<le> \<bar>x\<bar> / 2 ^ 53 + 1 / 2 ^ 1075"
proof (cases "x = 0")
  case True
  then show ?thesis by (simp add: fl_def)
next
  case False
  let ?e = "max (ilog2 \<bar>x\<bar>) (- 1022)"
  let ?u = "pow2 (?e - 52)"
  have u: "0 < ?u" by (rule pow2_pos)
  have "fl x - x = (of_int (round_half_even (x / ?u)) - x / ?u) * ?u"
    using False u by (simp add: fl_def Let_def algebra_simps)
  then have "\<bar>fl x - x\<bar> = \<bar>of_int (round_half_even (x / ?u)) - x / ?u\<bar> * ?u"
    using u by (simp add: abs_mult)
  also have "\<dots> \<le> 1 / 2 * ?u"
    using round_half_even_error [of "x / ?u"] u by (intro mult_right_mono) simp_all
  finally have h: "\<bar>fl x - x\<bar> \<le> ?u / 2" by simp
  have "?u / 2 \<le> \<bar>x\<bar> / 2 ^ 53 + 1 / 2 ^ 1075"
  proof (cases "- 1022 \<le> ilog2 \<bar>x\<bar>")
    case True
    then have "?u = pow2 (ilog2 \<bar>x\<bar>) / pow2 52"
      by (simp add: max_def pow2_diff)
    also have "\<dots> \<le> \<bar>x\<bar> / pow2 52"
      using ilog2_lower [of "\<bar>x\<bar>"] False pow2_pos [of 52] by (simp add: divide_right_mono)
    finally have "?u / 2 \<le> \<bar>x\<bar> / 2 ^ 53"
      by (simp add: pow2_def)
    then show ?thesis by simp
  next
    case False
    then have "?u = pow2 (- 1074)" by (simp add: max_def)
    then have "?u / 2 = 1 / 2 ^ 1075" by (simp add: pow2_def)
    then show ?thesis by simp
  qed
  with h show ?thesis by linarith
qed


lemma ilog2_upper:
  assumes "0 < x"
  shows "x < pow2 (ilog2 x + 1)"
proof -
  obtain p q where pq: "quotient_of x = (p, q)" by (cases "quotient_of x")
  have q: "0 < q" using quotient_of_denom_pos [OF pq] .
  have x: "x = of_int p / of_int q" using quotient_of_div [OF pq] .
  have p: "0 < p" using assms q x by (simp add: zero_less_divide_iff)
  let ?k = "bitlen p - bitlen q"
  show ?thesis
  proof (cases "pow2 ?k \<le> x")
    case False
    then show ?thesis by (simp add: ilog2_def pq)
  next
    case True
    have bp: "p < 2 ^ nat (bitlen p)" using bitlen_bounds [OF p] by simp
    have bq: "(2::int) ^ nat (bitlen q - 1) \<le> q" using bitlen_bounds [OF q] by simp
    have p0: "0 \<le> bitlen p" by (rule bitlen_nonneg)
    have q1: "1 \<le> bitlen q" using q by (simp add: bitlen_alt_def)
    have "of_int p < pow2 (bitlen p)"
    proof -
      have "(of_int p :: rat) < of_int (2 ^ nat (bitlen p))"
        using bp by (simp only: of_int_less_iff)
      then show ?thesis using p0 by (simp add: pow2_def)
    qed
    moreover have "pow2 (bitlen q - 1) \<le> of_int q"
    proof -
      have "of_int ((2::int) ^ nat (bitlen q - 1)) \<le> (of_int q :: rat)"
        using bq by (simp only: of_int_le_iff)
      then show ?thesis using q1 by (simp add: pow2_def)
    qed
    ultimately have "of_int p / of_int q < pow2 (bitlen p) / pow2 (bitlen q - 1)"
      using q p pow2_pos [of "bitlen q - 1"] by (intro frac_less) simp_all
    then have "x < pow2 (?k + 1)"
      using pow2_diff [of "bitlen p" "bitlen q - 1"] by (simp add: x algebra_simps)
    then show ?thesis using True by (simp add: ilog2_def pq)
  qed
qed

text \<open>
  The result of rounding is a binary64 number: an integer of at most 53 bits times a power
  of two that is at least \<open>2 ^ -1074\<close>.
\<close>

lemma fl_representable:
  "\<exists>n e. fl x = of_int n * pow2 e \<and> \<bar>n\<bar> \<le> 2 ^ 53 \<and> - 1074 \<le> e"
proof (cases "x = 0")
  case True
  have "fl x = of_int 0 * pow2 0 \<and> \<bar>0::int\<bar> \<le> 2 ^ 53 \<and> - 1074 \<le> (0::int)"
    using True by (simp add: fl_def)
  then show ?thesis by blast
next
  case False
  let ?e = "max (ilog2 \<bar>x\<bar>) (- 1022)"
  let ?u = "pow2 (?e - 52)"
  let ?n = "round_half_even (x / ?u)"
  have u: "0 < ?u" by (rule pow2_pos)
  have "\<bar>x\<bar> < pow2 (ilog2 \<bar>x\<bar> + 1)" using ilog2_upper [of "\<bar>x\<bar>"] False by simp
  also have "\<dots> \<le> pow2 (?e + 1)"
    by (simp add: pow2_powi power_int_increasing)
  also have "\<dots> = 2 ^ 53 * ?u"
  proof -
    have "pow2 (?e + 1) = pow2 (53 + (?e - 52))" by (simp add: algebra_simps)
    also have "\<dots> = pow2 53 * ?u" unfolding pow2_powi by (rule power_int_add) simp
    finally show ?thesis by (simp add: pow2_def)
  qed
  finally have "\<bar>x / ?u\<bar> < 2 ^ 53"
    using u by (simp add: pos_divide_less_eq)
  then have "\<bar>of_int ?n :: rat\<bar> \<le> 2 ^ 53 + 1 / 2"
    using round_half_even_error [of "x / ?u"] by linarith
  then have "\<bar>of_int ?n :: rat\<bar> < of_int (2 ^ 53 + 1)" by simp
  then have "\<bar>?n\<bar> < 2 ^ 53 + 1"
    unfolding of_int_abs [symmetric] of_int_less_iff .
  then have n: "\<bar>?n\<bar> \<le> 2 ^ 53" by simp
  have "fl x = of_int ?n * pow2 (?e - 52)"
    using False by (simp add: fl_def Let_def)
  moreover have "- 1074 \<le> ?e - 52" by simp
  ultimately show ?thesis using n by blast
qed

section \<open>Evaluating the concrete states\<close>

text \<open>Sums, products and roundings of small whole numbers are exact in binary64.\<close>

lemma fl_examples:
  "fmul 10 120 = 1200" "fsub 1000 1200 = - 200" "fsub 1000 10 = 990" "fadd 1000 1200 = 2200"
  "fadd 0 25 = 25" "fadd 25 1200 = 1225" "fadd 0 1200 = 1200" "fadd 0 500 = 500"
  "fadd 0 6000 = 6000" "fadd 0 1000 = 1000" "fadd 6000 1000 = 7000"
  "fmul 25 1 = 25" "fmul 500 1 = 500" "fmul 50 120 = 6000"
  "fsub 7000 1200 = 5800" "fadd 5800 500 = 6300"
  "fsub 1000 25 = 975" "fadd 0 975 = 975" "fadd 6000 975 = 6975"
  "fsub 6975 1200 = 5775" "fadd 5775 500 = 6275"
  by code_simp+

lemma round2_examples:
  "round2 1225 = 1225" "round2 1200 = 1200" "round2 500 = 500" "round2 6300 = 6300"
  "round2 6000 = 6000" "round2 1000 = 1000" "round2 7000 = 7000" "round2 6275 = 6275"
  "round2 6975 = 6975" "round2 975 = 975"
  by code_simp+

lemma two_accounts_simps:
  "accounts (db two_accounts) = [savings, cash]"
  "expenses (db two_accounts) = []"
  "incomes (db two_accounts) = []"
  "cache two_accounts = Map.empty"
  "sent two_accounts = 0"
  "settings (db two_accounts) = [''display_currency'' \<mapsto> ''BDT'']"
  by (simp_all add: two_accounts_def fresh_world_def fresh_db_def)

lemma fresh_world_simps:
  "accounts (db fresh_world) = []"
  "expenses (db fresh_world) = []"
  "incomes (db fresh_world) = []"
  "cache fresh_world = Map.empty"
  "sent fresh_world = 0"
  "settings (db fresh_world) = [''display_currency'' \<mapsto> ''BDT'']"
  by (simp_all add: fresh_world_def fresh_db_def)

lemma march_ledger_simps:
  "accounts (db march_ledger) = [savings, cash]"
  "expenses (db march_ledger) = march_expenses"
  "incomes (db march_ledger) = march_incomes"
  "cache march_ledger = Map.empty"
  "sent march_ledger = 0"
  "settings (db march_ledger) = [''display_currency'' \<mapsto> ''BDT'']"
  by (simp_all add: march_ledger_def fresh_world_def fresh_db_def)

lemma list_accounts_two_accounts: "list_accounts two_accounts = [cash, savings]"
  by (simp add: list_accounts_def two_accounts_simps savings_def cash_def less_eq_char_def
        less_char_def)

lemma offline_rates:
  "cache w = Map.empty \<Longrightarrow> fetch_rate offline ''USD'' ''BDT'' w = (120, w\<lparr>sent := sent w + 1\<rparr>)"
  "fetch_rate offline ''BDT'' ''BDT'' w = (1, w)"
  by (simp_all add: fetch_rate_def offline_def fallback_rate_def)

section \<open>Theorems about the currency service\<close>

text \<open>
  C8. For every currency code \<open>c\<close>, every cache, every store and every behaviour of the
  network, \<^verbatim>\<open>fetch_rate(c, c)\<close> returns exactly 1.0, in both variants of the service, and
  neither sends a request nor touches the cache.
\<close>

theorem C8_rate_same_currency:
  "fetch_rate net c c w = (1, w) \<and> fetch_rate_v1 net c c w = (1, w)"
  by (simp add: fetch_rate_def fetch_rate_v1_def)

section \<open>The conversions leave the store alone\<close>

lemma fetch_rate_db [simp]: "db (snd (fetch_rate net b t w)) = db w"
  by (simp add: fetch_rate_def split: option.splits)

lemma fetch_rate_store:
  "fetch_rate net b t (w\<lparr>db := d\<rparr>) =
     (fst (fetch_rate net b t w), (snd (fetch_rate net b t w))\<lparr>db := d\<rparr>)"
  by (simp add: fetch_rate_def split: option.splits)

lemma convert_db [simp]: "db (snd (convert net x b t w)) = db w"
  by (simp add: convert_def split: prod.splits) (metis fetch_rate_db snd_conv)

lemma convert_store:
  "convert net x b t (w\<lparr>db := d\<rparr>) =
     (fst (convert net x b t w), (snd (convert net x b t w))\<lparr>db := d\<rparr>)"
  by (simp add: convert_def fetch_rate_store split: prod.splits)

lemma fetch_rate_v1_db [simp]: "db (snd (fetch_rate_v1 net b t w)) = db w"
  by (simp add: fetch_rate_v1_def split: option.splits)

lemma fetch_rate_v1_store:
  "fetch_rate_v1 net b t (w\<lparr>db := d\<rparr>) =
     (fst (fetch_rate_v1 net b t w), (snd (fetch_rate_v1 net b t w))\<lparr>db := d\<rparr>)"
  by (simp add: fetch_rate_v1_def split: option.splits)

lemma convert_v1_store:
  "convert_v1 net x b t (w\<lparr>db := d\<rparr>) =
     (fst (convert_v1 net x b t w), (snd (convert_v1 net x b t w))\<lparr>db := d\<rparr>)"
  by (simp add: convert_v1_def fetch_rate_v1_store split: prod.splits)

lemma sum_converted_db [simp]: "db (snd (sum_converted net dc rows s w)) = db w"
proof (induction rows arbitrary: s w)
  case Nil
  show ?case by simp
next
  case (Cons r rows)
  obtain x c where r: "r = (x, c)" by (cases r)
  obtain y w' where c: "convert net x c dc w = (y, w')" by (cases "convert net x c dc w")
  have "db w' = db w" using convert_db [of net x c dc w] c by simp
  then show ?case using Cons.IH [of "fadd s y" w'] by (simp add: r c)
qed

lemma totals_loop_db [simp]: "db (snd (totals_loop net dc accs tfix tliq w)) = db w"
proof (induction accs arbitrary: tfix tliq w)
  case Nil
  show ?case by simp
next
  case (Cons a accs)
  show ?case
  proof (cases "a_currency a = dc")
    case True
    then show ?thesis using Cons.IH by simp
  next
    case False
    obtain y w' where c: "convert net (a_balance a) (a_currency a) dc w = (y, w')"
      by (cases "convert net (a_balance a) (a_currency a) dc w")
    have "db w' = db w" using convert_db [of net "a_balance a" "a_currency a" dc w] c by simp
    then show ?thesis using False Cons.IH [of _ _ w'] by (simp add: c)
  qed
qed

lemma totals_db [simp]: "db (snd (totals net w)) = db w"
  by (simp add: totals_def Let_def split: prod.splits)
     (metis totals_loop_db snd_conv)

section \<open>Adding expenses and incomes\<close>

lemma supported_currency_iff:
  "currency \<in> set SUPPORTED_CURRENCIES \<longleftrightarrow> currency = ''BDT'' \<or> currency = ''USD''"
  by (auto simp: SUPPORTED_CURRENCIES_def)

lemma insert_expense_ok:
  "currency \<in> set SUPPORTED_CURRENCIES \<Longrightarrow>
   insert_expense name amount currency account_id category_id up dt created d =
     Inr (d\<lparr>expenses := expenses d @
            [new_expense name amount currency account_id category_id up dt created d]\<rparr>)"
  by (auto simp: insert_expense_def supported_currency_iff)

lemma insert_income_ok:
  "currency \<in> set SUPPORTED_CURRENCIES \<Longrightarrow>
   insert_income source description amount currency up dt created d =
     Inr (d\<lparr>incomes := incomes d @
            [new_income source description amount currency up dt created d]\<rparr>)"
  by (auto simp: insert_income_def supported_currency_iff)

lemma insert_expense_rejected:
  "currency \<notin> set SUPPORTED_CURRENCIES \<Longrightarrow>
   insert_expense name amount currency account_id category_id up dt created d =
     Inl (IntegrityError CHECK_failed)"
  by (auto simp: insert_expense_def supported_currency_iff)

lemma insert_income_rejected:
  "currency \<notin> set SUPPORTED_CURRENCIES \<Longrightarrow>
   insert_income source description amount currency up dt created d =
     Inl (IntegrityError CHECK_failed)"
  by (auto simp: insert_income_def supported_currency_iff)

text \<open>
  Neither \<^verbatim>\<open>add_expense\<close> nor \<^verbatim>\<open>add_income\<close> of \<^verbatim>\<open>main.py\<close> checks the currency, but
  the schema does: in a currency other than BDT and USD the \<^verbatim>\<open>INSERT\<close> raises, the row
  is not stored and nothing else happens.
\<close>

lemma add_expense_unsupported_currency:
  "currency \<notin> set SUPPORTED_CURRENCIES \<Longrightarrow>
   add_expense net now name amount currency account_id category_id is_upcoming when w =
     (Inl (IntegrityError CHECK_failed), w)"
  by (simp add: add_expense_def insert_expense_rejected)

lemma add_income_unsupported_currency:
  "currency \<notin> set SUPPORTED_CURRENCIES \<Longrightarrow>
   add_income net now source description amount currency is_upcoming expected_date w =
     (Inl (IntegrityError CHECK_failed), w)"
  by (simp add: add_income_def insert_income_rejected)

lemma eur_unsupported: "''EUR'' \<notin> set SUPPORTED_CURRENCIES"
  by (simp add: SUPPORTED_CURRENCIES_def)

text \<open>The balance after a debit, against the exact difference.\<close>

lemma fsub_fmul_error:
  "\<bar>fsub B (fmul A r) - (B - A * r)\<bar> \<le> (\<bar>B - fmul A r\<bar> + \<bar>A * r\<bar>) / 2 ^ 53 + 1 / 2 ^ 1074"
proof -
  have 1: "\<bar>fl (B - fmul A r) - (B - fmul A r)\<bar> \<le> \<bar>B - fmul A r\<bar> / 2 ^ 53 + 1 / 2 ^ 1075"
    by (rule fl_error)
  have 2: "\<bar>fl (A * r) - A * r\<bar> \<le> \<bar>A * r\<bar> / 2 ^ 53 + 1 / 2 ^ 1075"
    by (rule fl_error)
  have "\<bar>fsub B (fmul A r) - (B - A * r)\<bar>
      \<le> \<bar>fl (B - fmul A r) - (B - fmul A r)\<bar> + \<bar>fl (A * r) - A * r\<bar>"
    by (simp add: fsub_def fmul_def)
  also have "\<dots> \<le> (\<bar>B - fmul A r\<bar> / 2 ^ 53 + 1 / 2 ^ 1075) + (\<bar>A * r\<bar> / 2 ^ 53 + 1 / 2 ^ 1075)"
    using 1 2 by (rule add_mono)
  also have "\<dots> = (\<bar>B - fmul A r\<bar> + \<bar>A * r\<bar>) / 2 ^ 53 + 1 / 2 ^ 1074"
    by (simp add: add_divide_distrib)
  finally show ?thesis .
qed

lemma fsub_error:
  "\<bar>fsub B A - (B - A)\<bar> \<le> (\<bar>B - A\<bar> + \<bar>A\<bar>) / 2 ^ 53 + 1 / 2 ^ 1074"
proof -
  have "\<bar>fl (B - A) - (B - A)\<bar> \<le> \<bar>B - A\<bar> / 2 ^ 53 + 1 / 2 ^ 1075"
    by (rule fl_error)
  also have "\<dots> \<le> (\<bar>B - A\<bar> + \<bar>A\<bar>) / 2 ^ 53 + 1 / 2 ^ 1074"
    by (simp add: add_divide_distrib add_mono)
  finally show ?thesis by (simp add: fsub_def)
qed

lemma convert_fst: "fst (convert net x b t w) = fmul x (fst (fetch_rate net b t w))"
  by (simp add: convert_def split: prod.splits)

lemma convert_v1_fst: "fst (convert_v1 net x b t w) = fmul x (fst (fetch_rate_v1 net b t w))"
  by (simp add: convert_v1_def split: prod.splits)

lemma debit_error:
  "\<bar>fsub B (if same then A else fmul A r) - (B - A * (if same then 1 else r))\<bar>
     \<le> (\<bar>B - (if same then A else fmul A r)\<bar> + \<bar>A * (if same then 1 else r)\<bar>) / 2 ^ 53
         + 1 / 2 ^ 1074"
  using fsub_error [of B A] fsub_fmul_error [of B A r] by simp

text \<open>
  C1 as stated does not hold: a settled expense in EUR against the existing account 2 is
  not recorded; the call raises instead and the balance stays.
\<close>

theorem C1_expense_in_eur_is_rejected:
  "filter (\<lambda>a. a_id a = 2) (accounts (db two_accounts)) = [cash]
   \<and> add_expense offline ''2024-03-05T10:00:00'' ''Laptop'' 10 ''EUR'' 2 None False
        \<lparr>year = 2024, month = 3, day = 5\<rparr> two_accounts
       = (Inl (IntegrityError CHECK_failed), two_accounts)
   \<and> expenses (db two_accounts) = []"
  by (simp add: add_expense_unsupported_currency eur_unsupported two_accounts_def
        fresh_world_def fresh_db_def savings_def cash_def)

text \<open>
  C1, amended. An expense that is not upcoming against an account that exists (\<open>acc\<close> is
  the row the engine reads for \<open>account_id\<close>). In a supported currency (BDT or USD) the
  call returns without error, the expense row is appended, and the balance of the account
  becomes \<open>B - convert(A, Cx, Ca)\<close> computed in binary64, with \<open>A\<close> itself as the debit
  when the currencies are equal; no other account changes. The new balance is within
  rounding tolerance of the exact \<open>B - A * rate\<close>: one rounding of the product and one of
  the difference. The older variant does the same with its own rate, and does so in any
  currency.
\<close>

theorem C1_add_expense_debits_account:
  fixes net :: network and w :: world and acc :: account and rest :: "account list"
    and currency :: string and amount :: float64 and account_id :: int
    and now name :: string and category_id :: "int option" and "when" :: date
  defines "rate \<equiv> if currency = a_currency acc then 1
                    else fst (fetch_rate net currency (a_currency acc) w)"
  defines "debit \<equiv> if currency = a_currency acc then amount else fmul amount rate"
  defines "rate_v1 \<equiv> if currency = a_currency acc then 1
                       else fst (fetch_rate_v1 net currency (a_currency acc) w)"
  defines "debit_v1 \<equiv> if currency = a_currency acc then amount else fmul amount rate_v1"
  assumes "filter (\<lambda>a. a_id a = account_id) (accounts (db w)) = acc # rest"
  shows "(currency \<in> set SUPPORTED_CURRENCIES \<longrightarrow>
           (\<exists>w'. add_expense net now name amount currency account_id category_id False when w
                 = (Inr (), w')
            \<and> expenses (db w') = expenses (db w) @
                 [new_expense name amount currency account_id category_id 0 (isoformat when)
                    now (db w)]
            \<and> accounts (db w') =
                 map (\<lambda>a. if a_id a = account_id
                           then a\<lparr>a_balance := fsub (a_balance acc) debit\<rparr> else a)
                   (accounts (db w))))
       \<and> \<bar>fsub (a_balance acc) debit - (a_balance acc - amount * rate)\<bar>
           \<le> (\<bar>a_balance acc - debit\<bar> + \<bar>amount * rate\<bar>) / 2 ^ 53 + 1 / 2 ^ 1074
       \<and> (\<exists>w'. add_expense_v1 net now name amount currency account_id category_id False when w
                 = (Inr (), w')
            \<and> expenses (db w') = expenses (db w) @
                 [new_expense name amount currency account_id category_id 0 (isoformat when)
                    now (db w)]
            \<and> accounts (db w') =
                 map (\<lambda>a. if a_id a = account_id
                           then a\<lparr>a_balance := fsub (a_balance acc) debit_v1\<rparr> else a)
                   (accounts (db w)))
       \<and> \<bar>fsub (a_balance acc) debit_v1 - (a_balance acc - amount * rate_v1)\<bar>
           \<le> (\<bar>a_balance acc - debit_v1\<bar> + \<bar>amount * rate_v1\<bar>) / 2 ^ 53 + 1 / 2 ^ 1074"
proof (intro conjI impI)
  assume "currency \<in> set SUPPORTED_CURRENCIES"
  then show "\<exists>w'. add_expense net now name amount currency account_id category_id False when w
                 = (Inr (), w')
            \<and> expenses (db w') = expenses (db w) @
                 [new_expense name amount currency account_id category_id 0 (isoformat when)
                    now (db w)]
            \<and> accounts (db w') =
                 map (\<lambda>a. if a_id a = account_id
                           then a\<lparr>a_balance := fsub (a_balance acc) debit\<rparr> else a)
                   (accounts (db w))"
    using assms(5)
    by (simp add: add_expense_def insert_expense_ok update_balance_def convert_store
          convert_fst debit_def rate_def Let_def split: prod.splits)
next
  show "\<exists>w'. add_expense_v1 net now name amount currency account_id category_id False when w
                 = (Inr (), w')
            \<and> expenses (db w') = expenses (db w) @
                 [new_expense name amount currency account_id category_id 0 (isoformat when)
                    now (db w)]
            \<and> accounts (db w') =
                 map (\<lambda>a. if a_id a = account_id
                           then a\<lparr>a_balance := fsub (a_balance acc) debit_v1\<rparr> else a)
                   (accounts (db w))"
    using assms(5)
    by (simp add: add_expense_v1_def insert_expense_v1_def update_balance_def convert_v1_store
          convert_v1_fst debit_v1_def rate_v1_def Let_def split: prod.splits)
next
  show "\<bar>fsub (a_balance acc) debit - (a_balance acc - amount * rate)\<bar>
           \<le> (\<bar>a_balance acc - debit\<bar> + \<bar>amount * rate\<bar>) / 2 ^ 53 + 1 / 2 ^ 1074"
    unfolding debit_def rate_def
    using debit_error [of "a_balance acc" "currency = a_currency acc" amount
        "fst (fetch_rate net currency (a_currency acc) w)"]
    by (simp split: if_splits)
next
  show "\<bar>fsub (a_balance acc) debit_v1 - (a_balance acc - amount * rate_v1)\<bar>
           \<le> (\<bar>a_balance acc - debit_v1\<bar> + \<bar>amount * rate_v1\<bar>) / 2 ^ 53 + 1 / 2 ^ 1074"
    unfolding debit_v1_def rate_v1_def
    using debit_error [of "a_balance acc" "currency = a_currency acc" amount
        "fst (fetch_rate_v1 net currency (a_currency acc) w)"]
    by (simp split: if_splits)
qed

lemma offline_rates_v1:
  "cache w = Map.empty \<Longrightarrow>
   fetch_rate_v1 offline ''EUR'' ''BDT'' w = (fdiv 1 120, w\<lparr>sent := sent w + 1\<rparr>)"
  by (simp add: fetch_rate_v1_def offline_def)

theorem C1_add_expense_debits_account_witness:
  "filter (\<lambda>a. a_id a = 2) (accounts (db two_accounts)) = [cash]
   \<and> ''USD'' \<in> set SUPPORTED_CURRENCIES
   \<and> fst (add_expense offline ''2024-03-05T10:00:00'' ''Laptop'' 10 ''USD'' 2 None False
            \<lparr>year = 2024, month = 3, day = 5\<rparr> two_accounts) = Inr ()
   \<and> accounts (db (snd (add_expense offline ''2024-03-05T10:00:00'' ''Laptop'' 10 ''USD'' 2 None
            False \<lparr>year = 2024, month = 3, day = 5\<rparr> two_accounts)))
       = [savings, cash\<lparr>a_balance := - 200\<rparr>]
   \<and> ''EUR'' \<notin> set SUPPORTED_CURRENCIES
   \<and> fst (add_expense_v1 offline ''2024-03-05T10:00:00'' ''Laptop'' 10 ''EUR'' 2 None False
            \<lparr>year = 2024, month = 3, day = 5\<rparr> two_accounts) = Inr ()
   \<and> accounts (db (snd (add_expense_v1 offline ''2024-03-05T10:00:00'' ''Laptop'' 10 ''EUR'' 2
            None False \<lparr>year = 2024, month = 3, day = 5\<rparr> two_accounts)))
       = [savings, cash\<lparr>a_balance := fsub 1000 (fmul 10 (fdiv 1 120))\<rparr>]"
proof -
  have c: "''USD'' \<in> set SUPPORTED_CURRENCIES"
    by (simp add: SUPPORTED_CURRENCIES_def)
  have f: "filter (\<lambda>a. a_id a = 2) (accounts (db two_accounts)) = [cash]"
    by (simp add: two_accounts_simps savings_def cash_def)
  have r: "fst (fetch_rate offline ''USD'' ''BDT'' two_accounts) = 120"
    by (simp add: offline_rates two_accounts_simps)
  have r1: "fst (fetch_rate_v1 offline ''EUR'' ''BDT'' two_accounts) = fdiv 1 120"
    by (simp add: offline_rates_v1 two_accounts_simps)
  from C1_add_expense_debits_account [of 2 two_accounts cash "[]" "''USD''" offline
      "''2024-03-05T10:00:00''" "''Laptop''" 10 None "\<lparr>year = 2024, month = 3, day = 5\<rparr>", OF f] c
  have 1: "fst (add_expense offline ''2024-03-05T10:00:00'' ''Laptop'' 10 ''USD'' 2 None False
            \<lparr>year = 2024, month = 3, day = 5\<rparr> two_accounts) = Inr ()
   \<and> accounts (db (snd (add_expense offline ''2024-03-05T10:00:00'' ''Laptop'' 10 ''USD'' 2 None
            False \<lparr>year = 2024, month = 3, day = 5\<rparr> two_accounts)))
       = [savings, cash\<lparr>a_balance := - 200\<rparr>]"
    using r by (auto simp: two_accounts_simps savings_def cash_def fl_examples)
  from C1_add_expense_debits_account [of 2 two_accounts cash "[]" "''EUR''" offline
      "''2024-03-05T10:00:00''" "''Laptop''" 10 None "\<lparr>year = 2024, month = 3, day = 5\<rparr>", OF f]
  have 2: "fst (add_expense_v1 offline ''2024-03-05T10:00:00'' ''Laptop'' 10 ''EUR'' 2 None False
            \<lparr>year = 2024, month = 3, day = 5\<rparr> two_accounts) = Inr ()
   \<and> accounts (db (snd (add_expense_v1 offline ''2024-03-05T10:00:00'' ''Laptop'' 10 ''EUR'' 2
            None False \<lparr>year = 2024, month = 3, day = 5\<rparr> two_accounts)))
       = [savings, cash\<lparr>a_balance := fsub 1000 (fmul 10 (fdiv 1 120))\<rparr>]"
    using r1 by (auto simp: two_accounts_simps savings_def cash_def)
  from c f 1 2 eur_unsupported show ?thesis by blast
qed




text \<open>
  The older variant indexes the empty query result: with no matching account it raises
  \<^verbatim>\<open>IndexError\<close> after the expense row has been stored.
\<close>

lemma add_expense_v1_missing_account:
  assumes "account_id \<notin> a_id ` set (accounts (db w))"
  shows "add_expense_v1 net now name amount currency account_id category_id False when w =
           (Inl IndexError, w\<lparr>db := (db w)\<lparr>expenses := expenses (db w) @
              [new_expense name amount currency account_id category_id 0 (isoformat when) now
                 (db w)]\<rparr>\<rparr>)"
proof -
  have "filter (\<lambda>a. a_id a = account_id) (accounts (db w)) = []"
    using assms by (auto simp: filter_empty_conv)
  then show ?thesis
    by (simp add: add_expense_v1_def insert_expense_v1_def)
qed




section \<open>The account credited by an income\<close>

lemma insert_desc_mset: "mset (insert_desc a bs) = add_mset a (mset bs)"
  by (induction bs) simp_all

lemma insert_desc_set: "set (insert_desc a bs) = insert a (set bs)"
  by (induction bs) auto

lemma insert_desc_sorted:
  "sorted_wrt (\<lambda>x y. a_created_at y \<le> a_created_at x) bs \<Longrightarrow>
   sorted_wrt (\<lambda>x y. a_created_at y \<le> a_created_at x) (insert_desc a bs)"
proof (induction bs)
  case Nil
  show ?case by simp
next
  case (Cons b bs)
  show ?case
  proof (cases "a_created_at b \<le> a_created_at a")
    case True
    with Cons.prems show ?thesis by (auto intro: order_trans)
  next
    case False
    then have "a_created_at a \<le> a_created_at b" by simp
    with Cons False show ?thesis by (auto simp: insert_desc_set)
  qed
qed

lemma list_accounts_mset: "mset (list_accounts w) = mset (accounts (db w))"
proof -
  have "mset (foldr insert_desc xs []) = mset xs" for xs
    by (induction xs) (simp_all add: insert_desc_mset)
  then show ?thesis by (simp add: list_accounts_def)
qed

lemma list_accounts_sorted:
  "sorted_wrt (\<lambda>x y. a_created_at y \<le> a_created_at x) (list_accounts w)"
proof -
  have "sorted_wrt (\<lambda>x y. a_created_at y \<le> a_created_at x) (foldr insert_desc xs [])" for xs
    by (induction xs) (simp_all add: insert_desc_sorted)
  then show ?thesis by (simp add: list_accounts_def)
qed

lemma list_accounts_store [simp]:
  "accounts d = accounts (db w) \<Longrightarrow> list_accounts (w\<lparr>db := d\<rparr>) = list_accounts w"
  by (simp add: list_accounts_def)

lemma first_liquid_find:
  "first_liquid currency accs = find (\<lambda>a. a_type a = ''liquid'' \<and> a_currency a = currency) accs"
  by (induction accs) simp_all

lemma select_target_spec: "select_target currency accs = spec_target currency accs"
  by (cases accs) (simp_all add: select_target_def spec_target_def first_liquid_find
        split: option.splits)

text \<open>
  C2 as stated does not hold: a settled income in EUR raises, with or without accounts,
  and no account is credited.
\<close>

theorem C2_income_in_eur_is_rejected:
  "accounts (db fresh_world) = []
   \<and> add_income offline ''2024-03-05T10:00:00'' ''Freelance'' ''invoice'' 10 ''EUR'' False
        \<lparr>year = 2024, month = 3, day = 5\<rparr> fresh_world
       = (Inl (IntegrityError CHECK_failed), fresh_world)
   \<and> add_income offline ''2024-03-05T10:00:00'' ''Freelance'' ''invoice'' 10 ''EUR'' False
        \<lparr>year = 2024, month = 3, day = 5\<rparr> two_accounts
       = (Inl (IntegrityError CHECK_failed), two_accounts)"
  by (simp add: add_income_unsupported_currency eur_unsupported fresh_world_def fresh_db_def)

text \<open>
  C2, amended. An income that is not upcoming, in a supported currency (BDT or USD): the
  call returns without error and the income row is appended. The account list is the
  accounts latest created first. If the specification's target policy names an account of
  it (the first liquid account in the income's currency, else the first account), the
  balance of that account becomes its balance plus the amount, converted into the
  account's currency when the currencies differ, in binary64, and no other account
  changes. If there is no account, the \<^verbatim>\<open>accounts\<close> table stays as it is.
\<close>

theorem C2_add_income_credits_target:
  assumes "currency \<in> set SUPPORTED_CURRENCIES"
  shows "\<exists>w'. add_income net now source description amount currency False expected_date w
                 = (Inr (), w')
           \<and> incomes (db w') = incomes (db w) @
                 [new_income source description amount currency 0 (isoformat expected_date) now
                    (db w)]
           \<and> mset (list_accounts w) = mset (accounts (db w))
           \<and> sorted_wrt (\<lambda>x y. a_created_at y \<le> a_created_at x) (list_accounts w)
           \<and> accounts (db w') =
               (case spec_target currency (list_accounts w) of
                  None \<Rightarrow> accounts (db w)
                | Some t \<Rightarrow>
                    map (\<lambda>a. if a_id a = a_id t
                              then a\<lparr>a_balance := fadd (a_balance t)
                                     (if currency = a_currency t then amount
                                      else fst (convert net amount currency (a_currency t) w))\<rparr>
                              else a)
                      (accounts (db w)))
           \<and> (accounts (db w) = [] \<longrightarrow> spec_target currency (list_accounts w) = None)"
proof -
  let ?d1 = "(db w)\<lparr>incomes := incomes (db w) @
      [new_income source description amount currency 0 (isoformat expected_date) now (db w)]\<rparr>"
  have la: "list_accounts (w\<lparr>db := ?d1\<rparr>) = list_accounts w"
    by simp
  have e: "accounts (db w) = [] \<longrightarrow> spec_target currency (list_accounts w) = None"
    by (simp add: list_accounts_def spec_target_def)
  show ?thesis
  proof (cases "spec_target currency (list_accounts w)")
    case None
    then show ?thesis
      using assms la e
      by (simp add: add_income_def insert_income_ok select_target_spec list_accounts_mset
            list_accounts_sorted)
  next
    case (Some t)
    then show ?thesis
      using assms la e
      by (simp add: add_income_def insert_income_ok select_target_spec list_accounts_mset
            list_accounts_sorted update_balance_def convert_store split: prod.splits)
  qed
qed

theorem C2_add_income_credits_target_witness:
  "''USD'' \<in> set SUPPORTED_CURRENCIES
   \<and> spec_target ''USD'' (list_accounts two_accounts) = Some cash
   \<and> fst (add_income offline ''2024-03-05T10:00:00'' ''Freelance'' ''invoice'' 10 ''USD'' False
        \<lparr>year = 2024, month = 3, day = 5\<rparr> two_accounts) = Inr ()
   \<and> accounts (db (snd (add_income offline ''2024-03-05T10:00:00'' ''Freelance'' ''invoice'' 10
        ''USD'' False \<lparr>year = 2024, month = 3, day = 5\<rparr> two_accounts)))
       = [savings, cash\<lparr>a_balance := 2200\<rparr>]
   \<and> accounts (db fresh_world) = []
   \<and> fst (add_income offline ''2024-03-05T10:00:00'' ''Freelance'' ''invoice'' 10 ''USD'' False
        \<lparr>year = 2024, month = 3, day = 5\<rparr> fresh_world) = Inr ()
   \<and> accounts (db (snd (add_income offline ''2024-03-05T10:00:00'' ''Freelance'' ''invoice'' 10
        ''USD'' False \<lparr>year = 2024, month = 3, day = 5\<rparr> fresh_world))) = []"
proof -
  have c: "''USD'' \<in> set SUPPORTED_CURRENCIES"
    by (simp add: SUPPORTED_CURRENCIES_def)
  have t: "spec_target ''USD'' (list_accounts two_accounts) = Some cash"
    by (simp add: list_accounts_two_accounts spec_target_def savings_def cash_def)
  have r: "fst (convert offline 10 ''USD'' ''BDT'' two_accounts) = 1200"
    by (simp add: convert_def fetch_rate_def offline_def two_accounts_simps fallback_rate_def
          fl_examples)
  have k: "a_id cash = 2" "a_currency cash = ''BDT''" "a_balance cash = 1000" "a_id savings = 1"
    by (simp_all add: cash_def savings_def)
  from C2_add_income_credits_target [OF c, of offline "''2024-03-05T10:00:00''" "''Freelance''"
      "''invoice''" 10 "\<lparr>year = 2024, month = 3, day = 5\<rparr>" two_accounts]
  have 1: "fst (add_income offline ''2024-03-05T10:00:00'' ''Freelance'' ''invoice'' 10 ''USD'' False
        \<lparr>year = 2024, month = 3, day = 5\<rparr> two_accounts) = Inr ()
   \<and> accounts (db (snd (add_income offline ''2024-03-05T10:00:00'' ''Freelance'' ''invoice'' 10
        ''USD'' False \<lparr>year = 2024, month = 3, day = 5\<rparr> two_accounts)))
       = [savings, cash\<lparr>a_balance := 2200\<rparr>]"
    by (auto simp: t r k two_accounts_simps fl_examples)
  from C2_add_income_credits_target [OF c, of offline "''2024-03-05T10:00:00''" "''Freelance''"
      "''invoice''" 10 "\<lparr>year = 2024, month = 3, day = 5\<rparr>" fresh_world]
  have 2: "fst (add_income offline ''2024-03-05T10:00:00'' ''Freelance'' ''invoice'' 10 ''USD'' False
        \<lparr>year = 2024, month = 3, day = 5\<rparr> fresh_world) = Inr ()
   \<and> accounts (db (snd (add_income offline ''2024-03-05T10:00:00'' ''Freelance'' ''invoice'' 10
        ''USD'' False \<lparr>year = 2024, month = 3, day = 5\<rparr> fresh_world))) = []"
    by (auto simp: fresh_world_simps)
  from c t 1 2 show ?thesis
    by (simp add: fresh_world_simps)
qed

section \<open>The fallback table\<close>

text \<open>The binary64 value of \<^verbatim>\<open>1/120.0\<close>, and its products with 120.0 in both orders.\<close>

lemma fdiv_1_120: "fdiv 1 120 = 4803839602528529 / 2 ^ 59"
  by code_simp

lemma fmul_120_inverse: "fmul 120 (fdiv 1 120) = 1" "fmul (fdiv 1 120) 120 = 1"
  by code_simp+

lemma fallback_rate_dom:
  "(a, b) \<in> dom (map_of fallback_rate) \<longleftrightarrow>
     a = ''USD'' \<and> b = ''BDT'' \<or> a = ''BDT'' \<and> b = ''USD''"
  by (auto simp: fallback_rate_def split: if_splits)

text \<open>
  C7. For every pair \<open>(a, b)\<close> of the fallback table, when neither direction is cached and
  the lookup fails for both requests, \<^verbatim>\<open>fetch_rate(a, b)\<close> and then \<^verbatim>\<open>fetch_rate(b, a)\<close>
  return the table's entries, and their binary64 product is exactly 1.0.
\<close>

theorem C7_fallback_rates_are_inverse:
  assumes "(a, b) \<in> dom (map_of fallback_rate)"
    and "cache w (a, b) = None" and "cache w (b, a) = None"
    and "net (sent w) a b = None" and "net (sent w + 1) b a = None"
  shows "map_of fallback_rate (a, b) = Some (fst (fetch_rate net a b w))
       \<and> map_of fallback_rate (b, a) =
           Some (fst (fetch_rate net b a (snd (fetch_rate net a b w))))
       \<and> fmul (fst (fetch_rate net a b w))
             (fst (fetch_rate net b a (snd (fetch_rate net a b w)))) = 1"
proof -
  from assms(1) consider "a = ''USD'' \<and> b = ''BDT''" | "a = ''BDT'' \<and> b = ''USD''"
    by (auto simp: fallback_rate_dom)
  then show ?thesis
  proof cases
    case 1
    with assms show ?thesis
      by (simp add: fetch_rate_def fallback_rate_def fmul_120_inverse)
  next
    case 2
    with assms show ?thesis
      by (simp add: fetch_rate_def fallback_rate_def fmul_120_inverse)
  qed
qed

theorem C7_fallback_rates_are_inverse_witness:
  "(''BDT'', ''USD'') \<in> dom (map_of fallback_rate)
   \<and> cache fresh_world (''BDT'', ''USD'') = None \<and> cache fresh_world (''USD'', ''BDT'') = None
   \<and> offline (sent fresh_world) ''BDT'' ''USD'' = None
   \<and> offline (sent fresh_world + 1) ''USD'' ''BDT'' = None
   \<and> map_of fallback_rate (''BDT'', ''USD'') = Some (fdiv 1 120)
   \<and> map_of fallback_rate (''USD'', ''BDT'') = Some 120
   \<and> fmul (fst (fetch_rate offline ''BDT'' ''USD'' fresh_world))
        (fst (fetch_rate offline ''USD'' ''BDT''
           (snd (fetch_rate offline ''BDT'' ''USD'' fresh_world)))) = 1"
proof -
  have h: "(''BDT'', ''USD'') \<in> dom (map_of fallback_rate)"
    "cache fresh_world (''BDT'', ''USD'') = None" "cache fresh_world (''USD'', ''BDT'') = None"
    "offline (sent fresh_world) ''BDT'' ''USD'' = None"
    "offline (sent fresh_world + 1) ''USD'' ''BDT'' = None"
    by (simp_all add: fallback_rate_dom fresh_world_simps offline_def)
  have t: "map_of fallback_rate (''BDT'', ''USD'') = Some (fdiv 1 120)"
    "map_of fallback_rate (''USD'', ''BDT'') = Some 120"
    by (simp_all add: fallback_rate_def)
  from C7_fallback_rates_are_inverse [OF h] h t show ?thesis
    by blast
qed

section \<open>Period summaries\<close>

lemma period_start_error:
  "period \<notin> {''daily'', ''weekly'', ''monthly''} \<Longrightarrow>
   period_start today period = Inl (ValueError ''period must be daily/weekly/monthly'')"
  by (simp add: period_start_def)

lemma period_start_ok:
  "period \<in> {''daily'', ''weekly'', ''monthly''} \<Longrightarrow> \<exists>start. period_start today period = Inr start"
  by (auto simp: period_start_def)

text \<open>
  C9. For every period other than \<^verbatim>\<open>daily\<close>, \<^verbatim>\<open>weekly\<close> and \<^verbatim>\<open>monthly\<close>,
  \<^verbatim>\<open>period_summary\<close> raises \<^verbatim>\<open>ValueError\<close> and leaves the whole state (store, cache,
  request count) as it was; for each of the three it returns a summary and raises
  nothing, and the store is unchanged then too.
\<close>

theorem C9_period_summary_errors:
  "(period \<notin> {''daily'', ''weekly'', ''monthly''} \<longrightarrow>
      period_summary net today period w =
        (Inl (ValueError ''period must be daily/weekly/monthly''), w))
   \<and> (period \<in> {''daily'', ''weekly'', ''monthly''} \<longrightarrow>
        (\<exists>r w'. period_summary net today period w = (Inr r, w') \<and> ps_period r = period
                \<and> db w' = db w))"
proof (intro conjI impI)
  assume "period \<notin> {''daily'', ''weekly'', ''monthly''}"
  then show "period_summary net today period w =
      (Inl (ValueError ''period must be daily/weekly/monthly''), w)"
    by (simp add: period_summary_def period_start_error)
next
  assume "period \<in> {''daily'', ''weekly'', ''monthly''}"
  then obtain start where s: "period_start today period = Inr start"
    using period_start_ok by blast
  let ?dc = "get_display_currency w"
  let ?exp = "map (\<lambda>e. (e_amount e, e_currency e)) (expenses_since (isoformat start) w)"
  let ?inc = "map (\<lambda>i. (i_amount i, i_currency i)) (incomes_since (isoformat start) w)"
  obtain x w1 where 1: "sum_converted net ?dc ?exp 0 w = (x, w1)"
    by (cases "sum_converted net ?dc ?exp 0 w")
  obtain y w2 where 2: "sum_converted net ?dc ?inc 0 w1 = (y, w2)"
    by (cases "sum_converted net ?dc ?inc 0 w1")
  have "db w1 = db w" using sum_converted_db [of net ?dc ?exp 0 w] 1 by simp
  moreover have "db w2 = db w1" using sum_converted_db [of net ?dc ?inc 0 w1] 2 by simp
  ultimately show "\<exists>r w'. period_summary net today period w = (Inr r, w') \<and> ps_period r = period
      \<and> db w' = db w"
    by (simp add: period_summary_def s 1 2)
qed

theorem C9_period_summary_errors_witness:
  "''yearly'' \<notin> {''daily'', ''weekly'', ''monthly''}
   \<and> period_summary offline \<lparr>year = 2024, month = 3, day = 15\<rparr> ''yearly'' two_accounts =
       (Inl (ValueError ''period must be daily/weekly/monthly''), two_accounts)
   \<and> ''weekly'' \<in> {''daily'', ''weekly'', ''monthly''}
   \<and> (\<exists>r w'. period_summary offline \<lparr>year = 2024, month = 3, day = 15\<rparr> ''weekly'' two_accounts
                = (Inr r, w'))"
  using C9_period_summary_errors [of "''yearly''" offline "\<lparr>year = 2024, month = 3, day = 15\<rparr>"
      two_accounts]
    C9_period_summary_errors [of "''weekly''" offline "\<lparr>year = 2024, month = 3, day = 15\<rparr>"
      two_accounts]
  by auto

section \<open>Dates as text\<close>

lemma digit_less: "digit m < digit n \<longleftrightarrow> m mod 10 < n mod 10"
proof -
  have "48 + m mod 10 < 256" "48 + n mod 10 < 256" by simp_all
  then show ?thesis
    by (simp add: digit_def less_char_def)
qed

lemma digit_eq: "digit m = digit n \<longleftrightarrow> m mod 10 = n mod 10"
proof -
  have a: "(48 + m mod 10) mod 256 = 48 + m mod 10" "(48 + n mod 10) mod 256 = 48 + n mod 10"
    by simp_all
  show ?thesis
    unfolding digit_def char_of_eq_iff using a
    by (simp add: take_bit_eq_mod)
qed

lemma decimal4_aux:
  fixes y p q a b c d :: nat
  shows "y = 10 * p + d \<Longrightarrow> p = 10 * q + c \<Longrightarrow> q = 10 * a + b \<Longrightarrow>
         y = 1000 * a + 100 * b + 10 * c + d"
  by simp

lemma div10_div10: "(y::nat) div 10 div 10 = y div 100"
  by (simp add: div_mult2_eq [symmetric])

lemma div100_div10: "(y::nat) div 100 div 10 = y div 1000"
  by (simp add: div_mult2_eq [symmetric])

lemma decimal4:
  fixes y :: nat
  shows "y = 1000 * (y div 1000) + 100 * (y div 100 mod 10) + 10 * (y div 10 mod 10) + y mod 10"
proof (rule decimal4_aux)
  show "y = 10 * (y div 10) + y mod 10"
    by (rule mult_div_mod_eq [symmetric])
  show "y div 10 = 10 * (y div 100) + y div 10 mod 10"
    using mult_div_mod_eq [of 10 "y div 10"] by (simp only: div10_div10)
  show "y div 100 = 10 * (y div 1000) + y div 100 mod 10"
    using mult_div_mod_eq [of 10 "y div 100"] by (simp only: div100_div10)
qed

lemma lex2_less:
  fixes a b a' b' :: nat
  assumes "b < 10" "b' < 10"
  shows "10 * a + b < 10 * a' + b' \<longleftrightarrow> a < a' \<or> a = a' \<and> b < b'"
  using assms by linarith

lemma lex2_le:
  fixes a b a' b' :: nat
  assumes "b < 10" "b' < 10"
  shows "10 * a + b \<le> 10 * a' + b' \<longleftrightarrow> a < a' \<or> a = a' \<and> b \<le> b'"
  using assms by linarith

lemma lex2_eq:
  fixes a b a' b' :: nat
  assumes "b < 10" "b' < 10"
  shows "10 * a + b = 10 * a' + b' \<longleftrightarrow> a = a' \<and> b = b'"
proof
  assume e: "10 * a + b = 10 * a' + b'"
  have "\<not> 10 * a + b < 10 * a' + b'" "\<not> 10 * a' + b' < 10 * a + b"
    using e by simp_all
  then have "\<not> (a < a' \<or> a = a' \<and> b < b')" "\<not> (a' < a \<or> a' = a \<and> b' < b)"
    unfolding lex2_less [OF assms] lex2_less [OF assms(2) assms(1)] .
  then show "a = a' \<and> b = b'" by auto
next
  assume "a = a' \<and> b = b'"
  then show "10 * a + b = 10 * a' + b'" by simp
qed

lemma lex4_less:
  fixes a b c d a' b' c' d' :: nat
  assumes "b < 10" "c < 10" "d < 10" "b' < 10" "c' < 10" "d' < 10"
  shows "1000 * a + 100 * b + 10 * c + d < 1000 * a' + 100 * b' + 10 * c' + d' \<longleftrightarrow>
         a < a' \<or> a = a' \<and> (b < b' \<or> b = b' \<and> (c < c' \<or> c = c' \<and> d < d'))"
  using assms by linarith

lemma lex4_eq:
  fixes a b c d a' b' c' d' :: nat
  assumes "b < 10" "c < 10" "d < 10" "b' < 10" "c' < 10" "d' < 10"
  shows "1000 * a + 100 * b + 10 * c + d = 1000 * a' + 100 * b' + 10 * c' + d' \<longleftrightarrow>
         a = a' \<and> b = b' \<and> c = c' \<and> d = d'"
proof
  assume e: "1000 * a + 100 * b + 10 * c + d = 1000 * a' + 100 * b' + 10 * c' + d'"
  have "\<not> 1000 * a + 100 * b + 10 * c + d < 1000 * a' + 100 * b' + 10 * c' + d'"
       "\<not> 1000 * a' + 100 * b' + 10 * c' + d' < 1000 * a + 100 * b + 10 * c + d"
    using e by simp_all
  then have "\<not> (a < a' \<or> a = a' \<and> (b < b' \<or> b = b' \<and> (c < c' \<or> c = c' \<and> d < d')))"
            "\<not> (a' < a \<or> a' = a \<and> (b' < b \<or> b' = b \<and> (c' < c \<or> c' = c \<and> d' < d)))"
    unfolding lex4_less [OF assms] lex4_less [OF assms(4-6) assms(1-3)] .
  then show "a = a' \<and> b = b' \<and> c = c' \<and> d = d'" by auto
next
  assume "a = a' \<and> b = b' \<and> c = c' \<and> d = d'"
  then show "1000 * a + 100 * b + 10 * c + d = 1000 * a' + 100 * b' + 10 * c' + d'" by simp
qed

lemma four_digits_less:
  fixes y z :: nat
  assumes "y < 10000" "z < 10000"
  shows "y < z \<longleftrightarrow>
     y div 1000 mod 10 < z div 1000 mod 10 \<or> y div 1000 mod 10 = z div 1000 mod 10 \<and>
       (y div 100 mod 10 < z div 100 mod 10 \<or> y div 100 mod 10 = z div 100 mod 10 \<and>
         (y div 10 mod 10 < z div 10 mod 10 \<or> y div 10 mod 10 = z div 10 mod 10 \<and>
            y mod 10 < z mod 10))"
proof -
  have s: "y div 1000 mod 10 = y div 1000" "z div 1000 mod 10 = z div 1000"
    using assms by (simp_all add: less_mult_imp_div_less)
  have "y < z \<longleftrightarrow>
        1000 * (y div 1000) + 100 * (y div 100 mod 10) + 10 * (y div 10 mod 10) + y mod 10
      < 1000 * (z div 1000) + 100 * (z div 100 mod 10) + 10 * (z div 10 mod 10) + z mod 10"
    by (rule arg_cong2 [where f = "(<)", OF decimal4 decimal4])
  also have "\<dots> \<longleftrightarrow>
     y div 1000 < z div 1000 \<or> y div 1000 = z div 1000 \<and>
       (y div 100 mod 10 < z div 100 mod 10 \<or> y div 100 mod 10 = z div 100 mod 10 \<and>
         (y div 10 mod 10 < z div 10 mod 10 \<or> y div 10 mod 10 = z div 10 mod 10 \<and>
            y mod 10 < z mod 10))"
    by (rule lex4_less) simp_all
  finally show ?thesis unfolding s .
qed

lemma four_digits_eq:
  fixes y z :: nat
  assumes "y < 10000" "z < 10000"
  shows "y = z \<longleftrightarrow>
     y div 1000 mod 10 = z div 1000 mod 10 \<and> y div 100 mod 10 = z div 100 mod 10 \<and>
     y div 10 mod 10 = z div 10 mod 10 \<and> y mod 10 = z mod 10"
proof -
  have s: "y div 1000 mod 10 = y div 1000" "z div 1000 mod 10 = z div 1000"
    using assms by (simp_all add: less_mult_imp_div_less)
  have "y = z \<longleftrightarrow>
        1000 * (y div 1000) + 100 * (y div 100 mod 10) + 10 * (y div 10 mod 10) + y mod 10
      = 1000 * (z div 1000) + 100 * (z div 100 mod 10) + 10 * (z div 10 mod 10) + z mod 10"
    by (rule arg_cong2 [where f = "(=)", OF decimal4 decimal4])
  also have "\<dots> \<longleftrightarrow>
     y div 1000 = z div 1000 \<and> y div 100 mod 10 = z div 100 mod 10 \<and>
     y div 10 mod 10 = z div 10 mod 10 \<and> y mod 10 = z mod 10"
    by (rule lex4_eq) simp_all
  finally show ?thesis unfolding s .
qed

lemma two_digits_less:
  fixes m n :: nat
  assumes "m < 100" "n < 100"
  shows "m < n \<longleftrightarrow> m div 10 mod 10 < n div 10 mod 10 \<or>
           m div 10 mod 10 = n div 10 mod 10 \<and> m mod 10 < n mod 10"
proof -
  have s: "m div 10 mod 10 = m div 10" "n div 10 mod 10 = n div 10"
    using assms by (simp_all add: less_mult_imp_div_less)
  have "m < n \<longleftrightarrow> 10 * (m div 10) + m mod 10 < 10 * (n div 10) + n mod 10"
    by (simp only: mult_div_mod_eq)
  also have "\<dots> \<longleftrightarrow> m div 10 < n div 10 \<or> m div 10 = n div 10 \<and> m mod 10 < n mod 10"
    by (rule lex2_less) simp_all
  finally show ?thesis unfolding s .
qed

lemma two_digits_le:
  fixes m n :: nat
  assumes "m < 100" "n < 100"
  shows "m \<le> n \<longleftrightarrow> m div 10 mod 10 < n div 10 mod 10 \<or>
           m div 10 mod 10 = n div 10 mod 10 \<and> m mod 10 \<le> n mod 10"
proof -
  have s: "m div 10 mod 10 = m div 10" "n div 10 mod 10 = n div 10"
    using assms by (simp_all add: less_mult_imp_div_less)
  have "m \<le> n \<longleftrightarrow> 10 * (m div 10) + m mod 10 \<le> 10 * (n div 10) + n mod 10"
    by (simp only: mult_div_mod_eq)
  also have "\<dots> \<longleftrightarrow> m div 10 < n div 10 \<or> m div 10 = n div 10 \<and> m mod 10 \<le> n mod 10"
    by (rule lex2_le) simp_all
  finally show ?thesis unfolding s .
qed

lemma two_digits_eq:
  fixes m n :: nat
  assumes "m < 100" "n < 100"
  shows "m = n \<longleftrightarrow> m div 10 mod 10 = n div 10 mod 10 \<and> m mod 10 = n mod 10"
proof -
  have s: "m div 10 mod 10 = m div 10" "n div 10 mod 10 = n div 10"
    using assms by (simp_all add: less_mult_imp_div_less)
  have "m = n \<longleftrightarrow> 10 * (m div 10) + m mod 10 = 10 * (n div 10) + n mod 10"
    by (simp only: mult_div_mod_eq)
  also have "\<dots> \<longleftrightarrow> m div 10 = n div 10 \<and> m mod 10 = n mod 10"
    by (rule lex2_eq) simp_all
  finally show ?thesis unfolding s .
qed

text \<open>The text order of two stored dates is their calendar order.\<close>

lemma isoformat_le_fields:
  assumes "year a < 10000" "year b < 10000" "month a < 100" "month b < 100"
    "day a < 100" "day b < 100"
  shows "isoformat a \<le> isoformat b \<longleftrightarrow> date_le a b"
  unfolding date_le_def
    four_digits_less [OF assms(1,2)] four_digits_eq [OF assms(1,2)]
    two_digits_less [OF assms(3,4)] two_digits_eq [OF assms(3,4)]
    two_digits_le [OF assms(5,6)]
  by (simp add: isoformat_def digit_less digit_eq le_less) blast

lemma days_in_month_le: "days_in_month y m \<le> 31"
  by (simp add: days_in_month_def)

lemma valid_date_bounds:
  assumes "valid_date d"
  shows "year d < 10000" "month d < 100" "day d < 100"
  using assms days_in_month_le [of "year d" "month d"] by (simp_all add: valid_date_def)

lemma isoformat_le:
  assumes "valid_date a" "valid_date b"
  shows "isoformat a \<le> isoformat b \<longleftrightarrow> date_le a b"
  using assms by (intro isoformat_le_fields valid_date_bounds)

lemma valid_first_of_month: "valid_date d \<Longrightarrow> valid_date (first_of_month d)"
  by (simp add: valid_date_def first_of_month_def days_in_month_def)

text \<open>Every row that \<^verbatim>\<open>add_expense\<close> writes carries the text of its date.\<close>

lemma add_expense_stores_date:
  "e_date (new_expense name amount currency account_id category_id up (isoformat when) now d)
     = isoformat when"
  by (simp add: new_expense_def)

text \<open>15 March 2024 is a Friday; the Monday of its ISO week is 11 March.\<close>

lemma days_before_month_3: "days_before_month y 3 = days_in_month y 1 + days_in_month y 2"
  by (simp add: numeral_3_eq_3 numeral_2_eq_2)

lemma funpow_4: "(f ^^ 4) x = f (f (f (f x)))"
  by (simp add: eval_nat_numeral)

lemma weekday_example: "weekday \<lparr>year = 2024, month = 3, day = 15\<rparr> = 4"
  by (simp add: weekday_def toordinal_def days_before_year_def days_before_month_3
        days_in_month_def is_leap_def)

lemma iso_week_monday_example:
  "iso_week_monday \<lparr>year = 2024, month = 3, day = 15\<rparr> = \<lparr>year = 2024, month = 3, day = 11\<rparr>"
  by (simp add: iso_week_monday_def weekday_example funpow_4 prev_day_def)

lemma expenses_since_dates:
  assumes "valid_date start"
    and "\<forall>e \<in> set (expenses (db w)). valid_date (dt e) \<and> e_date e = isoformat (dt e)"
  shows "expenses_since (isoformat start) w =
           filter (\<lambda>e. date_le start (dt e)) (expenses (db w))"
  unfolding expenses_since_def
proof (rule filter_cong [OF refl])
  fix e assume "e \<in> set (expenses (db w))"
  with assms(2) have "valid_date (dt e)" "e_date e = isoformat (dt e)" by auto
  then show "(isoformat start \<le> e_date e) = date_le start (dt e)"
    using isoformat_le [OF assms(1)] by simp
qed

lemma period_start_monthly: "period_start today ''monthly'' = Inr (first_of_month today)"
  by (simp add: period_start_def first_of_month_def)

text \<open>
  C6. Let every stored expense \<open>e\<close> carry the text of a calendar date \<open>dt e\<close>, as the rows
  written by \<^verbatim>\<open>add_expense\<close> do. Then \<^verbatim>\<open>period_summary("monthly")\<close> returns a summary
  whose expense figure is the rounded sum over exactly the expenses dated on or after the
  first day of the month of \<open>today\<close>, in table order: a row is among the summed ones if and
  only if its date is not before that day.
\<close>

theorem C6_monthly_expenses:
  assumes "valid_date today"
    and "\<forall>e \<in> set (expenses (db w)). valid_date (dt e) \<and> e_date e = isoformat (dt e)"
  shows "\<exists>r w'. period_summary net today ''monthly'' w = (Inr r, w')
           \<and> ps_expenses r =
               round2 (fst (sum_converted net (get_display_currency w)
                  (map (\<lambda>e. (e_amount e, e_currency e))
                     (filter (\<lambda>e. date_le (first_of_month today) (dt e)) (expenses (db w))))
                  0 w))
           \<and> (\<forall>e \<in> set (expenses (db w)).
                 e \<in> set (expenses_since (isoformat (first_of_month today)) w) \<longleftrightarrow>
                 date_le (first_of_month today) (dt e))"
proof -
  have v: "valid_date (first_of_month today)"
    using assms(1) by (rule valid_first_of_month)
  have f: "expenses_since (isoformat (first_of_month today)) w =
      filter (\<lambda>e. date_le (first_of_month today) (dt e)) (expenses (db w))"
    using v assms(2) by (rule expenses_since_dates)
  let ?dc = "get_display_currency w"
  let ?exp = "map (\<lambda>e. (e_amount e, e_currency e))
      (filter (\<lambda>e. date_le (first_of_month today) (dt e)) (expenses (db w)))"
  let ?inc = "map (\<lambda>i. (i_amount i, i_currency i))
      (incomes_since (isoformat (first_of_month today)) w)"
  obtain x w1 where 1: "sum_converted net ?dc ?exp 0 w = (x, w1)"
    by (cases "sum_converted net ?dc ?exp 0 w")
  obtain y w2 where 2: "sum_converted net ?dc ?inc 0 w1 = (y, w2)"
    by (cases "sum_converted net ?dc ?inc 0 w1")
  have "period_summary net today ''monthly'' w =
      (Inr \<lparr>ps_display_currency = ?dc, ps_period = ''monthly'', ps_expenses = round2 x,
             ps_income = round2 y, ps_net = round2 (fsub y x)\<rparr>, w2)"
    by (simp add: period_summary_def period_start_monthly f 1 2)
  then show ?thesis
    using 1 by (simp add: f)
qed



lemma isoformat_examples:
  "isoformat \<lparr>year = 2024, month = 2, day = 29\<rparr> = ''2024-02-29''"
  "isoformat \<lparr>year = 2024, month = 3, day = 1\<rparr> = ''2024-03-01''"
  "isoformat \<lparr>year = 2024, month = 3, day = 20\<rparr> = ''2024-03-20''"
  by code_simp+

lemma isoformat_first_of_march:
  "isoformat \<lparr>year = 2024, month = 3, day = Suc 0\<rparr> = ''2024-03-01''"
  using isoformat_examples(2) by simp

lemma march_dates:
  "\<forall>e \<in> set (expenses (db march_ledger)).
     valid_date (march_date e) \<and> e_date e = isoformat (march_date e)"
  by (simp add: march_ledger_simps march_expenses_def march_date_def valid_date_def
        days_in_month_def is_leap_def isoformat_examples isoformat_first_of_march)

lemma march_monthly_sum:
  "round2 (fst (sum_converted offline (get_display_currency march_ledger)
      (map (\<lambda>e. (e_amount e, e_currency e))
         (filter (\<lambda>e. date_le (first_of_month \<lparr>year = 2024, month = 3, day = 15\<rparr>) (march_date e))
            (expenses (db march_ledger))))
      0 march_ledger)) = 1225"
  by (simp add: get_display_currency_def march_ledger_simps march_expenses_def march_date_def
        date_le_def first_of_month_def convert_def offline_rates fl_examples
        round2_examples)

theorem C6_monthly_expenses_witness:
  "valid_date \<lparr>year = 2024, month = 3, day = 15\<rparr>
   \<and> map (\<lambda>e. valid_date (march_date e) \<and> e_date e = isoformat (march_date e))
         (expenses (db march_ledger)) = [True, True, True]
   \<and> map e_date (expenses (db march_ledger)) = [''2024-02-29'', ''2024-03-01'', ''2024-03-20'']
   \<and> map e_date (expenses_since (isoformat (first_of_month \<lparr>year = 2024, month = 3, day = 15\<rparr>))
        march_ledger) = [''2024-03-01'', ''2024-03-20'']
   \<and> (\<exists>r w'. period_summary offline \<lparr>year = 2024, month = 3, day = 15\<rparr> ''monthly'' march_ledger
                = (Inr r, w') \<and> ps_expenses r = 1225)"
proof -
  have v: "valid_date \<lparr>year = 2024, month = 3, day = 15\<rparr>"
    by (simp add: valid_date_def days_in_month_def)
  have d: "map e_date (expenses (db march_ledger)) = [''2024-02-29'', ''2024-03-01'', ''2024-03-20'']"
    by (simp add: march_ledger_simps march_expenses_def)
  have s: "map e_date (expenses_since (isoformat (first_of_month \<lparr>year = 2024, month = 3, day = 15\<rparr>))
        march_ledger) = [''2024-03-01'', ''2024-03-20'']"
    unfolding expenses_since_dates [OF valid_first_of_month [OF v] march_dates]
    by (simp add: march_ledger_simps march_expenses_def march_date_def date_le_def
          first_of_month_def)
  have a: "map (\<lambda>e. valid_date (march_date e) \<and> e_date e = isoformat (march_date e))
         (expenses (db march_ledger)) = [True, True, True]"
    using march_dates by (simp add: march_ledger_simps march_expenses_def)
  from C6_monthly_expenses [OF v march_dates, of offline] v a d s show ?thesis
    by (auto simp: march_monthly_sum)
qed

section \<open>Totals and projections\<close>

lemma sum_converted_spec_aux:
  "sum_converted net dc rows s w =
     foldl (\<lambda>(s, v) (amount, currency).
              (fadd s (fmul amount (fst (fetch_rate net currency dc v))),
               snd (fetch_rate net currency dc v)))
       (s, w) rows"
proof (induction rows arbitrary: s w)
  case Nil
  show ?case by simp
next
  case (Cons r rows)
  obtain amount currency where r: "r = (amount, currency)" by (cases r)
  show ?case
    by (simp add: r convert_def Cons.IH split: prod.splits)
qed

lemma sum_converted_spec: "sum_converted net dc rows 0 w = spec_converted_sum net dc rows w"
  by (simp add: sum_converted_spec_aux spec_converted_sum_def)

lemma totals_loop_spec_aux:
  "totals_loop net dc accs tfix tliq w =
     foldl (\<lambda>((fixed, liquid), v) a.
              (if a_type a = ''fixed'' then (fadd fixed (fst (spec_in_display net dc a v)), liquid)
               else (fixed, fadd liquid (fst (spec_in_display net dc a v))),
               snd (spec_in_display net dc a v)))
       ((tfix, tliq), w) accs"
proof (induction accs arbitrary: tfix tliq w)
  case Nil
  show ?case by simp
next
  case (Cons a accs)
  show ?case
    by (simp add: Cons.IH spec_in_display_def convert_def split: prod.splits)
qed

lemma totals_loop_spec:
  "totals_loop net dc accs 0 0 w = spec_sums_by_type net dc accs w"
  by (simp add: totals_loop_spec_aux spec_sums_by_type_def)

lemma totals_spec:
  "total_all (fst (totals net w)) =
     spec_total_all net (get_display_currency w) (list_accounts w) w"
  by (simp add: totals_def totals_loop_spec spec_total_all_def Let_def split: prod.splits)


lemma spec_converted_sum_db [simp]: "db (snd (spec_converted_sum net dc rows w)) = db w"
  using sum_converted_db [of net dc rows 0 w] by (simp add: sum_converted_spec)

text \<open>
  C5. For every state and every behaviour of the network, the projected total of
  \<^verbatim>\<open>upcoming_totals\<close> is \<^verbatim>\<open>round(total_all - up_exp + up_inc, 2)\<close> in binary64, where
  \<open>up_exp\<close> is the sum of all expense rows with \<^verbatim>\<open>is_upcoming = 1\<close> and \<open>up_inc\<close> the sum of
  all such income rows, each row converted to the display currency, and \<open>total_all\<close> is the
  rounded sum over the balances, in the display currency, that the accounts of the store
  hold at the time of the call: it is the \<^verbatim>\<open>total_all\<close> that \<^verbatim>\<open>totals\<close> returns then. The
  sums are the specification's, not the engine's loops, and the store is left as it was.
\<close>

theorem C5_projected_total:
  fixes net :: network and w :: world
  defines "dc \<equiv> get_display_currency w"
  defines "e \<equiv> spec_converted_sum net dc
                 (map (\<lambda>x. (e_amount x, e_currency x))
                    (filter (\<lambda>x. e_is_upcoming x = 1) (expenses (db w)))) w"
  defines "i \<equiv> spec_converted_sum net dc
                 (map (\<lambda>x. (i_amount x, i_currency x))
                    (filter (\<lambda>x. i_is_upcoming x = 1) (incomes (db w)))) (snd e)"
  defines "tall \<equiv> spec_total_all net dc (list_accounts w) (snd i)"
  shows "fst (upcoming_totals net w) =
           \<lparr>up_display_currency = dc, upcoming_expenses = round2 (fst e),
            upcoming_incomes = round2 (fst i),
            projected_total = round2 (fadd (fsub tall (fst e)) (fst i))\<rparr>
       \<and> total_all (fst (totals net (snd i))) = tall
       \<and> accounts (db (snd i)) = accounts (db w)
       \<and> db (snd (upcoming_totals net w)) = db w"
proof -
  have e: "sum_converted net dc (upcoming_expense_rows w) 0 w = e"
    by (simp add: sum_converted_spec e_def upcoming_expense_rows_def)
  have i: "sum_converted net dc (upcoming_income_rows w) 0 (snd e) = i"
    by (simp add: sum_converted_spec i_def upcoming_income_rows_def)
  have de: "db (snd e) = db w" by (simp add: e_def)
  have di: "db (snd i) = db w" by (simp add: i_def de)
  have same: "get_display_currency (snd i) = dc" "list_accounts (snd i) = list_accounts w"
    by (simp_all add: get_display_currency_def list_accounts_def dc_def di)
  have t: "total_all (fst (totals net (snd i))) = tall"
    by (simp add: totals_spec same tall_def)
  obtain r w3 where 3: "totals net (snd i) = (r, w3)"
    by (cases "totals net (snd i)")
  have d3: "db w3 = db w"
    using totals_db [of net "snd i"] 3 di by simp
  obtain x w1 where ex: "e = (x, w1)" by (cases e)
  obtain y w2 where iy: "i = (y, w2)" by (cases i)
  have u: "upcoming_totals net w =
      (\<lparr>up_display_currency = dc, upcoming_expenses = round2 (fst e),
        upcoming_incomes = round2 (fst i),
        projected_total = round2 (fadd (fsub (total_all r) (fst e)) (fst i))\<rparr>, w3)"
    using e i 3 by (simp add: upcoming_totals_def dc_def [symmetric] ex iy)
  show ?thesis
    using t 3 by (simp add: u d3 di)
qed

lemma cents_ledger_simps:
  "accounts (db cents_ledger) = [savings, cash\<lparr>a_balance := 8001 / 8\<rparr>]"
  "expenses (db cents_ledger) = march_expenses"
  "incomes (db cents_ledger) = march_incomes"
  "cache cents_ledger = Map.empty"
  "settings (db cents_ledger) = [''display_currency'' \<mapsto> ''BDT'']"
  by (simp_all add: cents_ledger_def march_ledger_simps)

lemma list_accounts_cents_ledger:
  "list_accounts cents_ledger = [cash\<lparr>a_balance := 8001 / 8\<rparr>, savings]"
  by (simp add: list_accounts_def cents_ledger_simps savings_def cash_def less_eq_char_def
        less_char_def)

lemma cents_roundings:
  "fadd 0 (8001 / 8) = 8001 / 8" "fadd 6000 (8001 / 8) = 56001 / 8"
  "round2 (56001 / 8) = fl (700012 / 100)"
  "round2 (fadd (fsub (fl (700012 / 100)) 1200) 500) = fl (630012 / 100)"
  "fl (700012 / 100) \<noteq> 56001 / 8"
  by code_simp+

theorem C5_projected_total_witness:
  "map (\<lambda>x. (e_amount x, e_currency x, e_is_upcoming x)) (expenses (db cents_ledger))
     = [(40, ''BDT'', 0), (25, ''BDT'', 0), (10, ''USD'', 1)]
   \<and> map (\<lambda>x. (i_amount x, i_currency x, i_is_upcoming x)) (incomes (db cents_ledger))
     = [(500, ''BDT'', 1)]
   \<and> map (\<lambda>a. (a_balance a, a_currency a)) (accounts (db cents_ledger))
     = [(50, ''USD''), (8001 / 8, ''BDT'')]
   \<and> fst (upcoming_totals offline cents_ledger) =
       \<lparr>up_display_currency = ''BDT'', upcoming_expenses = 1200, upcoming_incomes = 500,
        projected_total = fl (630012 / 100)\<rparr>
   \<and> fl (700012 / 100) \<noteq> 56001 / 8"
proof -
  let ?e = "spec_converted_sum offline ''BDT''
      (map (\<lambda>x. (e_amount x, e_currency x))
         (filter (\<lambda>x. e_is_upcoming x = 1) (expenses (db cents_ledger)))) cents_ledger"
  let ?i = "spec_converted_sum offline ''BDT''
      (map (\<lambda>x. (i_amount x, i_currency x))
         (filter (\<lambda>x. i_is_upcoming x = 1) (incomes (db cents_ledger)))) (snd ?e)"
  have dc: "get_display_currency cents_ledger = ''BDT''"
    by (simp add: get_display_currency_def cents_ledger_simps)
  have e: "?e = (1200, cents_ledger\<lparr>sent := sent cents_ledger + 1\<rparr>)"
    by (simp add: spec_converted_sum_def cents_ledger_simps march_expenses_def offline_rates
          fl_examples)
  have i: "?i = (500, cents_ledger\<lparr>sent := sent cents_ledger + 1\<rparr>)"
    unfolding e
    by (simp add: spec_converted_sum_def cents_ledger_simps march_incomes_def offline_rates
          fl_examples)
  have i': "spec_converted_sum offline ''BDT''
      (map (\<lambda>x. (i_amount x, i_currency x))
         (filter (\<lambda>x. i_is_upcoming x = 1) (incomes (db cents_ledger))))
      (cents_ledger\<lparr>sent := sent cents_ledger + 1\<rparr>)
      = (500, cents_ledger\<lparr>sent := sent cents_ledger + 1\<rparr>)"
    using i unfolding e by (simp only: snd_conv)
  have t: "spec_total_all offline ''BDT'' (list_accounts cents_ledger) (snd ?i)
      = fl (700012 / 100)"
    unfolding i
    by (simp add: spec_total_all_def spec_sums_by_type_def spec_in_display_def
          list_accounts_cents_ledger savings_def cash_def offline_rates cents_ledger_simps
          fl_examples cents_roundings)
  have rows: "map (\<lambda>x. (e_amount x, e_currency x, e_is_upcoming x)) (expenses (db cents_ledger))
       = [(40, ''BDT'', 0), (25, ''BDT'', 0), (10, ''USD'', 1)]"
    "map (\<lambda>x. (i_amount x, i_currency x, i_is_upcoming x)) (incomes (db cents_ledger))
       = [(500, ''BDT'', 1)]"
    "map (\<lambda>a. (a_balance a, a_currency a)) (accounts (db cents_ledger))
       = [(50, ''USD''), (8001 / 8, ''BDT'')]"
    by (simp_all add: cents_ledger_simps march_expenses_def march_incomes_def savings_def
          cash_def)
  from C5_projected_total [of offline cents_ledger]
  have "fst (upcoming_totals offline cents_ledger) =
       \<lparr>up_display_currency = ''BDT'', upcoming_expenses = round2 (fst ?e),
        upcoming_incomes = round2 (fst ?i),
        projected_total = round2 (fadd (fsub (fl (700012 / 100)) (fst ?e)) (fst ?i))\<rparr>"
    unfolding dc t by blast
  then have "fst (upcoming_totals offline cents_ledger) =
       \<lparr>up_display_currency = ''BDT'', upcoming_expenses = 1200, upcoming_incomes = 500,
        projected_total = fl (630012 / 100)\<rparr>"
    by (simp only: e i' fst_conv snd_conv round2_examples cents_roundings)
  with rows cents_roundings(5) show ?thesis
    by blast
qed


lemma march_totals:
  "fst (totals offline march_ledger) =
     \<lparr>display_currency = ''BDT'', total_fixed = 6000, total_liquid = 1000, total_all = 7000\<rparr>"
  by (simp add: totals_def get_display_currency_def march_ledger_simps list_accounts_def
        savings_def cash_def less_eq_char_def less_char_def convert_def offline_rates fl_examples
        round2_examples)


lemma march_upcoming_totals:
  "fst (upcoming_totals offline march_ledger) =
     \<lparr>up_display_currency = ''BDT'', upcoming_expenses = 1200, upcoming_incomes = 500,
      projected_total = 6300\<rparr>"
  by (simp add: upcoming_totals_def upcoming_expense_rows_def upcoming_income_rows_def
        totals_def get_display_currency_def march_ledger_simps march_expenses_def
        march_incomes_def list_accounts_def savings_def cash_def less_eq_char_def less_char_def
        convert_def offline_rates fl_examples round2_examples)

text \<open>After a settled expense of 25 BDT on the liquid account, the projection is 25 lower.\<close>

lemma march_after_tea:
  "snd (add_expense offline ''2024-03-15T10:00:00'' ''Tea'' 25 ''BDT'' 2 None False
         \<lparr>year = 2024, month = 3, day = 15\<rparr> march_ledger) =
   march_ledger\<lparr>db := (db march_ledger)\<lparr>
      expenses := march_expenses @
        [new_expense ''Tea'' 25 ''BDT'' 2 None 0 (isoformat \<lparr>year = 2024, month = 3, day = 15\<rparr>)
           ''2024-03-15T10:00:00'' (db march_ledger)],
      accounts := [savings, cash\<lparr>a_balance := 975\<rparr>]\<rparr>\<rparr>"
  by (simp add: add_expense_def insert_expense_def update_balance_def march_ledger_simps
        savings_def cash_def fl_examples Let_def)

lemma march_upcoming_totals_after_expense:
  "projected_total (fst (upcoming_totals offline
      (snd (add_expense offline ''2024-03-15T10:00:00'' ''Tea'' 25 ''BDT'' 2 None False
         \<lparr>year = 2024, month = 3, day = 15\<rparr> march_ledger)))) = 6275"
  unfolding march_after_tea
  by (simp add: upcoming_totals_def upcoming_expense_rows_def upcoming_income_rows_def
        totals_def get_display_currency_def march_ledger_simps march_expenses_def
        march_incomes_def new_expense_def list_accounts_def savings_def cash_def
        less_eq_char_def less_char_def convert_def offline_rates fl_examples
        round2_examples Let_def)

section \<open>Adding accounts\<close>

text \<open>
  C4 as stated does not hold of the older variant: \<^verbatim>\<open>add_account\<close> of
  \<^verbatim>\<open>main_v1.py\<close> checks nothing, and its schema constrains nothing,
  so an account in an unsupported currency and of an unsupported type is created.
\<close>

theorem C4_v1_accepts_any_account:
  "''EUR'' \<notin> set SUPPORTED_CURRENCIES \<and> ''wallet'' \<notin> set ACCOUNT_TYPES
   \<and> add_account_v1 ''2024-01-01T09:00:00'' ''Travel'' ''EUR'' 5 ''wallet'' fresh_world =
       (Inr 1, fresh_world\<lparr>db := fresh_db\<lparr>accounts :=
          [\<lparr>a_id = 1, a_name = ''Travel'', a_currency = ''EUR'', a_balance = 5,
            a_type = ''wallet'', a_created_at = ''2024-01-01T09:00:00''\<rparr>]\<rparr>\<rparr>)"
  by (simp add: SUPPORTED_CURRENCIES_def ACCOUNT_TYPES_def add_account_v1_def
        insert_account_v1_def next_id_def fresh_world_def fresh_db_def)

text \<open>
  C4, amended. \<^verbatim>\<open>add_account\<close> of \<^verbatim>\<open>main.py\<close> raises \<^verbatim>\<open>ValueError\<close> when the currency
  is not BDT or USD, and otherwise when the type is not fixed or liquid; otherwise, when
  the name is the name of an existing account, the insert fails on the \<^verbatim>\<open>UNIQUE\<close>
  constraint with \<^verbatim>\<open>sqlite3.IntegrityError\<close>; in these three cases the state is unchanged.
  Otherwise it appends exactly one row with a fresh id, the given fields and the given
  opening balance, and returns the id. \<^verbatim>\<open>add_account\<close> of \<^verbatim>\<open>main_v1.py\<close> always appends
  the row.
\<close>

theorem C4_add_account_amended:
  "add_account now name currency balance acc_type w =
     (if currency \<notin> {''BDT'', ''USD''} then (Inl (ValueError ''Unsupported currency''), w)
      else if acc_type \<notin> {''fixed'', ''liquid''}
        then (Inl (ValueError ''Unsupported account type''), w)
      else if name \<in> a_name ` set (accounts (db w))
        then (Inl (IntegrityError UNIQUE_failed), w)
      else (Inr (next_id (map a_id (accounts (db w)))),
            w\<lparr>db := (db w)\<lparr>accounts := accounts (db w) @
               [\<lparr>a_id = next_id (map a_id (accounts (db w))), a_name = name,
                 a_currency = currency, a_balance = balance, a_type = acc_type,
                 a_created_at = now\<rparr>]\<rparr>\<rparr>))
   \<and> add_account_v1 now name currency balance acc_type w =
       (Inr (next_id (map a_id (accounts (db w)))),
        w\<lparr>db := (db w)\<lparr>accounts := accounts (db w) @
           [\<lparr>a_id = next_id (map a_id (accounts (db w))), a_name = name,
             a_currency = currency, a_balance = balance, a_type = acc_type,
             a_created_at = now\<rparr>]\<rparr>\<rparr>)
   \<and> next_id (map a_id (accounts (db w))) \<notin> a_id ` set (accounts (db w))"
proof -
  have fresh: "\<forall>i \<in> set ids. i < next_id ids" for ids
    by (induction ids) (auto simp: next_id_def)
  have "next_id (map a_id (accounts (db w))) \<notin> a_id ` set (accounts (db w))"
    using fresh [of "map a_id (accounts (db w))"] by auto
  then show ?thesis
    by (simp add: add_account_def add_account_v1_def insert_account_def insert_account_v1_def
          SUPPORTED_CURRENCIES_def ACCOUNT_TYPES_def Let_def)
qed

theorem C4_add_account_amended_witness:
  "fst (add_account ''2024-02-01T09:00:00'' ''Travel'' ''EUR'' 5 ''liquid'' two_accounts)
     = Inl (ValueError ''Unsupported currency'')
   \<and> fst (add_account ''2024-02-01T09:00:00'' ''Travel'' ''USD'' 5 ''wallet'' two_accounts)
     = Inl (ValueError ''Unsupported account type'')
   \<and> add_account ''2024-02-01T09:00:00'' ''Cash'' ''USD'' 5 ''liquid'' two_accounts
     = (Inl (IntegrityError UNIQUE_failed), two_accounts)
   \<and> fst (add_account ''2024-02-01T09:00:00'' ''Travel'' ''USD'' 5 ''liquid'' two_accounts)
     = Inr 3
   \<and> accounts (db (snd (add_account ''2024-02-01T09:00:00'' ''Travel'' ''USD'' 5 ''liquid''
        two_accounts)))
     = [savings, cash,
        \<lparr>a_id = 3, a_name = ''Travel'', a_currency = ''USD'', a_balance = 5, a_type = ''liquid'',
         a_created_at = ''2024-02-01T09:00:00''\<rparr>]"
  using C4_add_account_amended [of "''2024-02-01T09:00:00''" "''Travel''" "''EUR''" 5 "''liquid''"
      two_accounts]
    C4_add_account_amended [of "''2024-02-01T09:00:00''" "''Travel''" "''USD''" 5 "''wallet''"
      two_accounts]
    C4_add_account_amended [of "''2024-02-01T09:00:00''" "''Cash''" "''USD''" 5 "''liquid''"
      two_accounts]
    C4_add_account_amended [of "''2024-02-01T09:00:00''" "''Travel''" "''USD''" 5 "''liquid''"
      two_accounts]
  by (simp add: two_accounts_simps savings_def cash_def next_id_def)

end
